theory Spec2Isabelle
  imports Complex_Main "HOL-Library.Word" "HOL-Library.Log_Nat" "HOL-Library.Multiset" "HOL-Library.Sublist"
begin

section \<open>Values of the language\<close>

subsection \<open>Strings\<close>

text \<open>
  A string of the source language is a sequence of UTF-16 code units. \<open>str\<close> embeds an
  ASCII literal. \<open>trim\<close> is \<^verbatim>\<open>String.prototype.trim\<close>: it removes the WhiteSpace and
  LineTerminator code points of ECMAScript (all of them in the basic plane, so one code
  unit each) from both ends.
\<close>

type_synonym jsstring = "16 word list"

definition str :: "string \<Rightarrow> jsstring" where
  "str s = map (\<lambda>c. of_nat (of_char c)) s"

definition isWhiteSpace :: "16 word \<Rightarrow> bool" where
  "isWhiteSpace c \<longleftrightarrow>
     c \<in> {0x0009, 0x000A, 0x000B, 0x000C, 0x000D, 0x0020, 0x00A0, 0x1680,
          0x2000, 0x2001, 0x2002, 0x2003, 0x2004, 0x2005, 0x2006, 0x2007,
          0x2008, 0x2009, 0x200A, 0x2028, 0x2029, 0x202F, 0x205F, 0x3000, 0xFEFF}"

definition trim :: "jsstring \<Rightarrow> jsstring" where
  "trim s = rev (dropWhile isWhiteSpace (rev (dropWhile isWhiteSpace s)))"

subsection \<open>Numbers\<close>

text \<open>
  A \<^verbatim>\<open>number\<close> is an IEEE 754 binary64 value: NaN, an infinity, or a finite value,
  carried as the rational it denotes. The two zeros are one value here: the functions
  below never divide by a computed value and never print a number, so no result
  tells them apart. \<open>round64\<close> rounds a rational to the nearest binary64 value, ties
  to even: 53 significant bits, least exponent \<open>-1022\<close> (below it the spacing stays
  \<open>2 powi -1074\<close>), and a result of magnitude \<open>2 ^ 1024\<close> or more is an infinity.
  \<open>is_double\<close> holds of the values that rounding leaves alone, which are the values a
  program can hold.
\<close>

datatype number = NaN | PosInf | NegInf | Fin rat

definition ilog2 :: "rat \<Rightarrow> int" where
  "ilog2 a = (if 1 \<le> a then bitlen \<lfloor>a\<rfloor> - 1 else - bitlen (\<lceil>1 / a\<rceil> - 1))"

definition roundTiesToEven :: "rat \<Rightarrow> int" where
  "roundTiesToEven x =
     (let n = \<lfloor>x\<rfloor>; f = x - of_int n
      in if f < 1 / 2 then n else if 1 / 2 < f then n + 1 else if even n then n else n + 1)"

definition ulp :: "rat \<Rightarrow> rat" where
  "ulp a = 2 powi (max (ilog2 a) (- 1022) - 52)"

definition round64 :: "rat \<Rightarrow> number" where
  "round64 q =
     (if q = 0 then Fin 0
      else let a = \<bar>q\<bar>;
               r = of_int (roundTiesToEven (a / ulp a)) * ulp a
           in if 2 ^ 1024 \<le> r then (if q < 0 then NegInf else PosInf)
              else Fin (sgn q * r))"

fun is_double :: "number \<Rightarrow> bool" where
  "is_double (Fin q) = (round64 q = Fin q)"
| "is_double x = True"

fun js_add :: "number \<Rightarrow> number \<Rightarrow> number" where
  "js_add NaN y = NaN"
| "js_add x NaN = NaN"
| "js_add (Fin a) (Fin b) = round64 (a + b)"
| "js_add PosInf NegInf = NaN"
| "js_add NegInf PosInf = NaN"
| "js_add PosInf y = PosInf"
| "js_add NegInf y = NegInf"
| "js_add (Fin a) y = y"

text \<open>The sign of a number that is not NaN, as \<open>-1\<close>, \<open>0\<close> or \<open>1\<close>.\<close>

fun sign :: "number \<Rightarrow> rat" where
  "sign (Fin a) = sgn a"
| "sign PosInf = 1"
| "sign NegInf = - 1"
| "sign NaN = 0"

fun js_mul :: "number \<Rightarrow> number \<Rightarrow> number" where
  "js_mul NaN y = NaN"
| "js_mul x NaN = NaN"
| "js_mul (Fin a) (Fin b) = round64 (a * b)"
| "js_mul x y =
     (if sign x * sign y = 0 then NaN else if 0 < sign x * sign y then PosInf else NegInf)"

text \<open>
  Division, for a divisor that is not zero: the only division of the program is by the
  literal \<open>100\<close>. (With the two zeros identified, the sign of a quotient by zero is
  not determined; a zero divisor is taken as the positive zero.)
\<close>

fun js_div :: "number \<Rightarrow> number \<Rightarrow> number" where
  "js_div NaN y = NaN"
| "js_div x NaN = NaN"
| "js_div (Fin a) (Fin b) =
     (if b \<noteq> 0 then round64 (a / b)
      else if a = 0 then NaN else if 0 < a then PosInf else NegInf)"
| "js_div (Fin a) y = Fin 0"
| "js_div x (Fin b) = (if (0 < sign x) = (0 \<le> b) then PosInf else NegInf)"
| "js_div x y = NaN"

text \<open>The comparisons \<^verbatim>\<open><\<close> and \<^verbatim>\<open>></\<close>: false whenever an operand is NaN.\<close>

fun js_lt :: "number \<Rightarrow> number \<Rightarrow> bool" where
  "js_lt NaN y = False"
| "js_lt x NaN = False"
| "js_lt (Fin a) (Fin b) = (a < b)"
| "js_lt x NegInf = False"
| "js_lt NegInf y = True"
| "js_lt PosInf y = False"
| "js_lt x PosInf = True"

definition js_gt :: "number \<Rightarrow> number \<Rightarrow> bool" where
  "js_gt x y = js_lt y x"

text \<open>The literal \<^verbatim>\<open>0.1\<close> denotes the binary64 value nearest to one tenth.\<close>

definition lit_0_1 :: number where
  "lit_0_1 = round64 (1 / 10)"

text \<open>The operator \<^verbatim>\<open>??\<close> on a value that is present or \<^verbatim>\<open>undefined\<close>.\<close>

fun nullish :: "'a option \<Rightarrow> 'a \<Rightarrow> 'a" where
  "nullish None d = d"
| "nullish (Some v) d = v"

subsection \<open>Dates\<close>

text \<open>A \<^verbatim>\<open>Date\<close> is its time value, in milliseconds since the epoch.\<close>

type_synonym date = int

section \<open>The data model\<close>

text \<open>
  \<^verbatim>\<open>TCGCard\<close> (types/tcg.types.ts). The record lists the fields that the functions below
  read; the other fields of the interface (rarity, condition, metadata) are the record's
  extension, so every statement holds for cards that carry them. The field \<^verbatim>\<open>id\<close> is
  \<open>card_id\<close> here and \<open>bundle_id\<close> in a bundle, and \<^verbatim>\<open>notes\<close> is \<open>notes_opt\<close>.
\<close>

record TCGCard =
  card_id :: jsstring
  cardName :: jsstring
  setName :: "jsstring option"
  cardNumber :: "jsstring option"
  trendingPrice :: "number option"
  averagePrice :: "number option"
  lowPrice :: "number option"

record PriceTableRow =
  percentage :: number
  trendingValue :: number
  averageValue :: number
  lowValue :: number

datatype PricingStrategy = Trending | Average | Low

record CardBundle =
  bundle_id :: jsstring
  name :: jsstring
  cardIDs :: "jsstring list"
  pricingStrategy :: PricingStrategy
  percentageMultiplier :: number
  calculatedTotal :: number
  notes_opt :: "jsstring option"
  createdAt :: date
  lastModified :: date

text \<open>
  \<^verbatim>\<open>BundleStatistics\<close>. The two counts are an array length and a counter that is
  incremented once per element of an array: integers below \<open>2 ^ 32\<close>, which binary64
  arithmetic represents exactly, so they are natural numbers here.
\<close>

record BundleStatistics =
  trendingTotal :: number
  averageTotal :: number
  lowTotal :: number
  selectedTotal :: number
  cardCount :: nat
  validCardCount :: nat

record BundleValidation =
  isValid :: bool
  errors :: "jsstring list"

text \<open>A thrown \<^verbatim>\<open>Error\<close>, with its message.\<close>

datatype exn = Error jsstring

section \<open>The functions of types/tcg.types.ts\<close>

definition generatePriceTable :: "'a TCGCard_scheme \<Rightarrow> PriceTableRow list" where
  "generatePriceTable c =
     (let percentages = map Fin [100, 90, 80, 70, 60, 50, 40, 30, 20, 10]
      in map (\<lambda>p.
           let multiplier = js_div p (Fin 100)
           in \<lparr>percentage = p,
               trendingValue = js_mul (nullish (trendingPrice c) (Fin 0)) multiplier,
               averageValue = js_mul (nullish (averagePrice c) (Fin 0)) multiplier,
               lowValue = js_mul (nullish (lowPrice c) (Fin 0)) multiplier\<rparr>)
         percentages)"

text \<open>\<^verbatim>\<open>card.setName?.trim() ?? ''\<close>: the trimmed field, or the empty string when it is absent.\<close>

definition getCardIdentifier :: "'a TCGCard_scheme \<Rightarrow> jsstring" where
  "getCardIdentifier c =
     (let name' = trim (cardName c);
          set' = nullish (map_option trim (setName c)) [];
          number = nullish (map_option trim (cardNumber c)) []
      in name' @ str ''|'' @ set' @ str ''|'' @ number)"

section \<open>The functions of types/bundle.types.ts\<close>

text \<open>The \<^verbatim>\<open>default\<close> branch of the switch is not reachable: the type has three values.\<close>

fun getPriceForStrategy :: "'a TCGCard_scheme \<Rightarrow> PricingStrategy \<Rightarrow> number option" where
  "getPriceForStrategy c Trending = trendingPrice c"
| "getPriceForStrategy c Average = averagePrice c"
| "getPriceForStrategy c Low = lowPrice c"

definition calculateBundleTotal ::
  "'a TCGCard_scheme list \<Rightarrow> PricingStrategy \<Rightarrow> number \<Rightarrow> exn + number" where
  "calculateBundleTotal cards strategy multiplier =
     (if js_lt multiplier lit_0_1 \<or> js_gt multiplier (Fin 1)
      then Inl (Error (str ''Multiplier must be between 0.1 and 1.0 (10% to 100%)''))
      else let subtotal =
                 foldl (\<lambda>sum c.
                     let price = getPriceForStrategy c strategy
                     in js_add sum (nullish price (Fin 0)))
                   (Fin 0) cards
           in Inr (js_mul subtotal multiplier))"

text \<open>
  The body of the loop of \<^verbatim>\<open>calculateBundleStatistics\<close>, on its four variables
  \<^verbatim>\<open>trendingTotal\<close>, \<^verbatim>\<open>averageTotal\<close>, \<^verbatim>\<open>lowTotal\<close> and \<^verbatim>\<open>validCards\<close> (primed
  where the name is a field of the result).
\<close>

fun statisticsStep ::
  "number \<times> number \<times> number \<times> nat \<Rightarrow> 'a TCGCard_scheme \<Rightarrow> number \<times> number \<times> number \<times> nat" where
  "statisticsStep (trendingTotal', averageTotal', lowTotal', validCards) c =
     ((case trendingPrice c of Some p \<Rightarrow> js_add trendingTotal' p | None \<Rightarrow> trendingTotal'),
      (case averagePrice c of Some p \<Rightarrow> js_add averageTotal' p | None \<Rightarrow> averageTotal'),
      (case lowPrice c of Some p \<Rightarrow> js_add lowTotal' p | None \<Rightarrow> lowTotal'),
      (case trendingPrice c of Some p \<Rightarrow> validCards + 1 | None \<Rightarrow> validCards))"

definition calculateBundleStatistics ::
  "'b CardBundle_scheme \<Rightarrow> 'a TCGCard_scheme list \<Rightarrow> BundleStatistics" where
  "calculateBundleStatistics bundle cards =
     (let bundleCards = filter (\<lambda>c. card_id c \<in> set (cardIDs bundle)) cards;
          (trendingTotal', averageTotal', lowTotal', validCards) =
            foldl statisticsStep (Fin 0, Fin 0, Fin 0, 0) bundleCards
      in \<lparr>trendingTotal = trendingTotal',
          averageTotal = averageTotal',
          lowTotal = lowTotal',
          selectedTotal = calculatedTotal bundle,
          cardCount = length (cardIDs bundle),
          validCardCount = validCards\<rparr>)"

text \<open>
  \<^verbatim>\<open>updateBundleTotal\<close> reads the clock (\<^verbatim>\<open>new Date()\<close>): the reading is the argument
  \<open>now\<close>. The object literal with the spread builds a new object: the result is a new
  record, with all the fields of the bundle but the two that are set.
\<close>

definition updateBundleTotal ::
  "date \<Rightarrow> 'b CardBundle_scheme \<Rightarrow> 'a TCGCard_scheme list \<Rightarrow> exn + 'b CardBundle_scheme" where
  "updateBundleTotal now bundle cards =
     (let bundleCards = filter (\<lambda>c. card_id c \<in> set (cardIDs bundle)) cards
      in case calculateBundleTotal bundleCards (pricingStrategy bundle)
                (percentageMultiplier bundle) of
           Inl e \<Rightarrow> Inl e
         | Inr newTotal \<Rightarrow> Inr (bundle\<lparr>calculatedTotal := newTotal, lastModified := now\<rparr>))"

definition validateBundle :: "'b CardBundle_scheme \<Rightarrow> BundleValidation" where
  "validateBundle bundle =
     (let errors0 = [];
          errors1 = (if trim (name bundle) = []
                     then errors0 @ [str ''Bundle name is required''] else errors0);
          errors2 = (if length (cardIDs bundle) = 0
                     then errors1 @ [str ''Bundle must contain at least one card'']
                     else errors1);
          errors3 = (if js_lt (percentageMultiplier bundle) lit_0_1
                        \<or> js_gt (percentageMultiplier bundle) (Fin 1)
                     then errors2 @ [str ''Percentage must be between 10% and 100%'']
                     else errors2)
      in \<lparr>isValid = (length errors3 = 0), errors = errors3\<rparr>)"

section \<open>Notions of the specification\<close>

text \<open>
  A multiplier in the range \<open>[0.1, 1.0]\<close>: a number (not NaN) that is neither below the
  literal \<^verbatim>\<open>0.1\<close> nor above \<^verbatim>\<open>1.0\<close>.
\<close>

definition inRange :: "number \<Rightarrow> bool" where
  "inRange m \<longleftrightarrow> m \<noteq> NaN \<and> \<not> js_lt m lit_0_1 \<and> \<not> js_gt m (Fin 1)"

text \<open>
  The price tier that a strategy selects, \<open>0\<close> when it is absent, and the sum of a
  sequence of numbers: binary64 additions from \<open>0\<close>, in the order of the sequence.
\<close>

definition tierOrZero :: "PricingStrategy \<Rightarrow> 'a TCGCard_scheme \<Rightarrow> number" where
  "tierOrZero strategy c = nullish (getPriceForStrategy c strategy) (Fin 0)"

definition js_sum :: "number list \<Rightarrow> number" where
  "js_sum xs = foldl js_add (Fin 0) xs"

text \<open>
  \<open>exactFrom a xs\<close>: the numbers \<open>xs\<close> are finite, and adding them one after the other
  to \<open>a\<close> never rounds. \<open>finValue\<close> is the rational that a finite number denotes.
\<close>

fun exactFrom :: "rat \<Rightarrow> number list \<Rightarrow> bool" where
  "exactFrom a [] = True"
| "exactFrom a (Fin b # xs) = (round64 (a + b) = Fin (a + b) \<and> exactFrom (a + b) xs)"
| "exactFrom a (x # xs) = False"

fun finValue :: "number \<Rightarrow> rat" where
  "finValue (Fin b) = b"
| "finValue x = 0"

text \<open>
  The cards of a bundle, as both \<^verbatim>\<open>calculateBundleStatistics\<close> and \<^verbatim>\<open>updateBundleTotal\<close>
  select them: the cards of the list whose \<^verbatim>\<open>id\<close> is an element of \<^verbatim>\<open>cardIDs\<close>.
\<close>

definition bundleCards :: "'b CardBundle_scheme \<Rightarrow> 'a TCGCard_scheme list \<Rightarrow> 'a TCGCard_scheme list" where
  "bundleCards bundle cards = filter (\<lambda>c. card_id c \<in> set (cardIDs bundle)) cards"

section \<open>Objects and the store\<close>

text \<open>
  The functions above take and return values. Here are the same functions on objects:
  an argument that is an object or an array is a reference into a store, which holds the
  objects of each type in the order of their allocation. A property that is an array or
  a \<^verbatim>\<open>Date\<close> is a reference too, so two bundles may share their \<^verbatim>\<open>cardIDs\<close>. An object
  literal, an array literal, \<^verbatim>\<open>new Date()\<close>, \<^verbatim>\<open>filter\<close> and \<^verbatim>\<open>map\<close> allocate; \<^verbatim>\<open>push\<close>
  changes the array it is called on; a property read, \<^verbatim>\<open>includes\<close>, \<^verbatim>\<open>length\<close> and
  \<^verbatim>\<open>reduce\<close> read the store. A string and a number are values, not objects. The spread
  \<^verbatim>\<open>...bundle\<close> copies the properties of the bundle, so the new object shares the
  \<^verbatim>\<open>cardIDs\<close> array and the \<^verbatim>\<open>createdAt\<close> date of the old one. A thrown \<^verbatim>\<open>Error\<close> is the
  value of the error. An assignment to a property of an argument would be an update of
  the list of its objects at the reference; no function below has one.
\<close>

type_synonym ref = nat

record BundleObject =
  id_of :: jsstring
  name_of :: jsstring
  cardIDs_of :: ref
  pricingStrategy_of :: PricingStrategy
  percentageMultiplier_of :: number
  calculatedTotal_of :: number
  notes_of :: "jsstring option"
  createdAt_of :: ref
  lastModified_of :: ref

record ValidationObject =
  isValid_of :: bool
  errors_of :: ref

record ('a, 'b) store =
  cardObjects :: "'a TCGCard_scheme list"
  cardArrays :: "ref list list"
  bundleObjects :: "'b BundleObject_scheme list"
  stringArrays :: "jsstring list list"
  dateObjects :: "date list"
  statisticsObjects :: "BundleStatistics list"
  validationObjects :: "ValidationObject list"
  rowObjects :: "PriceTableRow list"
  rowArrays :: "ref list list"
  numberArrays :: "number list list"

subsection \<open>Allocation, and the methods of arrays\<close>

definition newCardArray :: "ref list \<Rightarrow> ('a, 'b) store \<Rightarrow> ref \<times> ('a, 'b) store" where
  "newCardArray xs s = (length (cardArrays s), s\<lparr>cardArrays := cardArrays s @ [xs]\<rparr>)"

definition newStringArray :: "jsstring list \<Rightarrow> ('a, 'b) store \<Rightarrow> ref \<times> ('a, 'b) store" where
  "newStringArray xs s = (length (stringArrays s), s\<lparr>stringArrays := stringArrays s @ [xs]\<rparr>)"

definition newNumberArray :: "number list \<Rightarrow> ('a, 'b) store \<Rightarrow> ref \<times> ('a, 'b) store" where
  "newNumberArray xs s = (length (numberArrays s), s\<lparr>numberArrays := numberArrays s @ [xs]\<rparr>)"

definition newRowArray :: "ref list \<Rightarrow> ('a, 'b) store \<Rightarrow> ref \<times> ('a, 'b) store" where
  "newRowArray xs s = (length (rowArrays s), s\<lparr>rowArrays := rowArrays s @ [xs]\<rparr>)"

definition newRow :: "PriceTableRow \<Rightarrow> ('a, 'b) store \<Rightarrow> ref \<times> ('a, 'b) store" where
  "newRow x s = (length (rowObjects s), s\<lparr>rowObjects := rowObjects s @ [x]\<rparr>)"

definition newDate :: "date \<Rightarrow> ('a, 'b) store \<Rightarrow> ref \<times> ('a, 'b) store" where
  "newDate x s = (length (dateObjects s), s\<lparr>dateObjects := dateObjects s @ [x]\<rparr>)"

definition newBundle :: "'b BundleObject_scheme \<Rightarrow> ('a, 'b) store \<Rightarrow> ref \<times> ('a, 'b) store" where
  "newBundle x s = (length (bundleObjects s), s\<lparr>bundleObjects := bundleObjects s @ [x]\<rparr>)"

definition newStatistics :: "BundleStatistics \<Rightarrow> ('a, 'b) store \<Rightarrow> ref \<times> ('a, 'b) store" where
  "newStatistics x s =
     (length (statisticsObjects s), s\<lparr>statisticsObjects := statisticsObjects s @ [x]\<rparr>)"

definition newValidation :: "ValidationObject \<Rightarrow> ('a, 'b) store \<Rightarrow> ref \<times> ('a, 'b) store" where
  "newValidation x s =
     (length (validationObjects s), s\<lparr>validationObjects := validationObjects s @ [x]\<rparr>)"

text \<open>\<^verbatim>\<open>a.push(x)\<close> on an array of strings: the array \<open>a\<close> itself is changed.\<close>

definition pushString :: "ref \<Rightarrow> jsstring \<Rightarrow> ('a, 'b) store \<Rightarrow> ('a, 'b) store" where
  "pushString a x s = s\<lparr>stringArrays := (stringArrays s)[a := stringArrays s ! a @ [x]]\<rparr>"

text \<open>\<^verbatim>\<open>a.filter(p)\<close> on an array of cards: a new array; the array \<open>a\<close> is read.\<close>

definition filterCards :: "(ref \<Rightarrow> bool) \<Rightarrow> ref \<Rightarrow> ('a, 'b) store \<Rightarrow> ref \<times> ('a, 'b) store" where
  "filterCards p a s = newCardArray (filter p (cardArrays s ! a)) s"

text \<open>
  \<^verbatim>\<open>a.map(f)\<close> on the elements of an array of numbers, for a callback that returns an
  object: the callback runs on each element in turn, in the store that the calls before
  it have left.
\<close>

fun mapRows ::
  "(number \<Rightarrow> ('a, 'b) store \<Rightarrow> ref \<times> ('a, 'b) store) \<Rightarrow> number list \<Rightarrow> ('a, 'b) store \<Rightarrow> ref list \<times> ('a, 'b) store" where
  "mapRows f [] s = ([], s)"
| "mapRows f (x # xs) s =
     (let (r, s1) = f x s; (rs, s2) = mapRows f xs s1 in (r # rs, s2))"

subsection \<open>The functions, on references\<close>

definition generatePriceTable_st :: "ref \<Rightarrow> ('a, 'b) store \<Rightarrow> ref \<times> ('a, 'b) store" where
  "generatePriceTable_st c s =
     (let (percentages, s1) = newNumberArray (map Fin [100, 90, 80, 70, 60, 50, 40, 30, 20, 10]) s;
          (rowRefs, s2) =
            mapRows (\<lambda>p s'.
                let multiplier = js_div p (Fin 100)
                in newRow
                     \<lparr>percentage = p,
                      trendingValue =
                        js_mul (nullish (trendingPrice (cardObjects s' ! c)) (Fin 0)) multiplier,
                      averageValue =
                        js_mul (nullish (averagePrice (cardObjects s' ! c)) (Fin 0)) multiplier,
                      lowValue =
                        js_mul (nullish (lowPrice (cardObjects s' ! c)) (Fin 0)) multiplier\<rparr>
                     s')
              (numberArrays s1 ! percentages) s1
      in newRowArray rowRefs s2)"

definition getCardIdentifier_st :: "ref \<Rightarrow> ('a, 'b) store \<Rightarrow> jsstring \<times> ('a, 'b) store" where
  "getCardIdentifier_st c s =
     (let name' = trim (cardName (cardObjects s ! c));
          set' = nullish (map_option trim (setName (cardObjects s ! c))) [];
          number = nullish (map_option trim (cardNumber (cardObjects s ! c))) []
      in (name' @ str ''|'' @ set' @ str ''|'' @ number, s))"

definition calculateBundleTotal_st ::
  "ref \<Rightarrow> PricingStrategy \<Rightarrow> number \<Rightarrow> ('a, 'b) store \<Rightarrow> (exn + number) \<times> ('a, 'b) store" where
  "calculateBundleTotal_st cards strategy multiplier s =
     (if js_lt multiplier lit_0_1 \<or> js_gt multiplier (Fin 1)
      then (Inl (Error (str ''Multiplier must be between 0.1 and 1.0 (10% to 100%)'')), s)
      else let subtotal =
                 foldl (\<lambda>sum c.
                     let price = getPriceForStrategy (cardObjects s ! c) strategy
                     in js_add sum (nullish price (Fin 0)))
                   (Fin 0) (cardArrays s ! cards)
           in (Inr (js_mul subtotal multiplier), s))"

definition calculateBundleStatistics_st :: "ref \<Rightarrow> ref \<Rightarrow> ('a, 'b) store \<Rightarrow> ref \<times> ('a, 'b) store" where
  "calculateBundleStatistics_st bundle cards s =
     (let (bundleCards', s1) =
            filterCards
              (\<lambda>c. card_id (cardObjects s ! c)
                     \<in> set (stringArrays s ! cardIDs_of (bundleObjects s ! bundle)))
              cards s;
          (trendingTotal', averageTotal', lowTotal', validCards) =
            foldl (\<lambda>totals c. statisticsStep totals (cardObjects s1 ! c))
              (Fin 0, Fin 0, Fin 0, 0) (cardArrays s1 ! bundleCards')
      in newStatistics
           \<lparr>trendingTotal = trendingTotal',
            averageTotal = averageTotal',
            lowTotal = lowTotal',
            selectedTotal = calculatedTotal_of (bundleObjects s1 ! bundle),
            cardCount = length (stringArrays s1 ! cardIDs_of (bundleObjects s1 ! bundle)),
            validCardCount = validCards\<rparr>
           s1)"

definition updateBundleTotal_st ::
  "date \<Rightarrow> ref \<Rightarrow> ref \<Rightarrow> ('a, 'b) store \<Rightarrow> (exn + ref) \<times> ('a, 'b) store" where
  "updateBundleTotal_st now bundle cards s =
     (let (bundleCards', s1) =
            filterCards
              (\<lambda>c. card_id (cardObjects s ! c)
                     \<in> set (stringArrays s ! cardIDs_of (bundleObjects s ! bundle)))
              cards s
      in case calculateBundleTotal_st bundleCards'
                (pricingStrategy_of (bundleObjects s1 ! bundle))
                (percentageMultiplier_of (bundleObjects s1 ! bundle)) s1 of
           (Inl e, s2) \<Rightarrow> (Inl e, s2)
         | (Inr newTotal, s2) \<Rightarrow>
             (let (d, s3) = newDate now s2;
                  (r, s4) =
                    newBundle
                      ((bundleObjects s3 ! bundle)
                         \<lparr>calculatedTotal_of := newTotal, lastModified_of := d\<rparr>)
                      s3
              in (Inr r, s4)))"

definition validateBundle_st :: "ref \<Rightarrow> ('a, 'b) store \<Rightarrow> ref \<times> ('a, 'b) store" where
  "validateBundle_st bundle s =
     (let (errors', s1) = newStringArray [] s;
          s2 = (if trim (name_of (bundleObjects s1 ! bundle)) = []
                then pushString errors' (str ''Bundle name is required'') s1 else s1);
          s3 = (if length (stringArrays s2 ! cardIDs_of (bundleObjects s2 ! bundle)) = 0
                then pushString errors' (str ''Bundle must contain at least one card'') s2
                else s2);
          s4 = (if js_lt (percentageMultiplier_of (bundleObjects s3 ! bundle)) lit_0_1
                   \<or> js_gt (percentageMultiplier_of (bundleObjects s3 ! bundle)) (Fin 1)
                then pushString errors' (str ''Percentage must be between 10% and 100%'') s3
                else s3)
      in newValidation
           \<lparr>isValid_of = (length (stringArrays s4 ! errors') = 0), errors_of = errors'\<rparr> s4)"

subsection \<open>The contents of objects\<close>

text \<open>
  The value that an object or an array holds in a store, and the references that must
  be live for it. \<open>unchanged s s'\<close>: every object of \<open>s\<close> is in \<open>s'\<close>, as it was.
\<close>

definition cardsOf :: "('a, 'b) store \<Rightarrow> ref \<Rightarrow> 'a TCGCard_scheme list" where
  "cardsOf s a = map (\<lambda>r. cardObjects s ! r) (cardArrays s ! a)"

definition bundleOf :: "('a, 'b) store \<Rightarrow> ref \<Rightarrow> 'b CardBundle_scheme" where
  "bundleOf s r =
     \<lparr>bundle_id = id_of (bundleObjects s ! r),
      name = name_of (bundleObjects s ! r),
      cardIDs = stringArrays s ! cardIDs_of (bundleObjects s ! r),
      pricingStrategy = pricingStrategy_of (bundleObjects s ! r),
      percentageMultiplier = percentageMultiplier_of (bundleObjects s ! r),
      calculatedTotal = calculatedTotal_of (bundleObjects s ! r),
      notes_opt = notes_of (bundleObjects s ! r),
      createdAt = dateObjects s ! createdAt_of (bundleObjects s ! r),
      lastModified = dateObjects s ! lastModified_of (bundleObjects s ! r),
      \<dots> = BundleObject.more (bundleObjects s ! r)\<rparr>"

definition validationOf :: "('a, 'b) store \<Rightarrow> ref \<Rightarrow> BundleValidation" where
  "validationOf s r =
     \<lparr>isValid = isValid_of (validationObjects s ! r),
      errors = stringArrays s ! errors_of (validationObjects s ! r)\<rparr>"

definition rowsOf :: "('a, 'b) store \<Rightarrow> ref \<Rightarrow> PriceTableRow list" where
  "rowsOf s a = map (\<lambda>r. rowObjects s ! r) (rowArrays s ! a)"

definition liveCard :: "('a, 'b) store \<Rightarrow> ref \<Rightarrow> bool" where
  "liveCard s c \<longleftrightarrow> c < length (cardObjects s)"

definition liveCards :: "('a, 'b) store \<Rightarrow> ref \<Rightarrow> bool" where
  "liveCards s a \<longleftrightarrow>
     a < length (cardArrays s) \<and> (\<forall>r \<in> set (cardArrays s ! a). r < length (cardObjects s))"

definition liveBundle :: "('a, 'b) store \<Rightarrow> ref \<Rightarrow> bool" where
  "liveBundle s r \<longleftrightarrow>
     r < length (bundleObjects s)
     \<and> cardIDs_of (bundleObjects s ! r) < length (stringArrays s)
     \<and> createdAt_of (bundleObjects s ! r) < length (dateObjects s)
     \<and> lastModified_of (bundleObjects s ! r) < length (dateObjects s)"

definition unchanged :: "('a, 'b) store \<Rightarrow> ('a, 'b) store \<Rightarrow> bool" where
  "unchanged s s' \<longleftrightarrow>
     prefix (cardObjects s) (cardObjects s')
     \<and> prefix (cardArrays s) (cardArrays s')
     \<and> prefix (bundleObjects s) (bundleObjects s')
     \<and> prefix (stringArrays s) (stringArrays s')
     \<and> prefix (dateObjects s) (dateObjects s')
     \<and> prefix (statisticsObjects s) (statisticsObjects s')
     \<and> prefix (validationObjects s) (validationObjects s')
     \<and> prefix (rowObjects s) (rowObjects s')
     \<and> prefix (rowArrays s) (rowArrays s')
     \<and> prefix (numberArrays s) (numberArrays s')"

section \<open>Example values\<close>

definition mkCard ::
  "jsstring \<Rightarrow> jsstring \<Rightarrow> jsstring option \<Rightarrow> jsstring option
     \<Rightarrow> number option \<Rightarrow> number option \<Rightarrow> number option \<Rightarrow> TCGCard" where
  "mkCard i n s k t a l =
     \<lparr>card_id = i, cardName = n, setName = s, cardNumber = k,
      trendingPrice = t, averagePrice = a, lowPrice = l\<rparr>"

definition mkBundle ::
  "jsstring \<Rightarrow> jsstring list \<Rightarrow> PricingStrategy \<Rightarrow> number \<Rightarrow> CardBundle" where
  "mkBundle n ids strategy m =
     \<lparr>bundle_id = str ''bundle-123'', name = n, cardIDs = ids, pricingStrategy = strategy,
      percentageMultiplier = m, calculatedTotal = Fin 450, notes_opt = None,
      createdAt = 1700000000000, lastModified = 1700000000000\<rparr>"

text \<open>A card whose trending price is written as the decimal literal \<open>p\<close>.\<close>

definition pricedCard :: "string \<Rightarrow> rat \<Rightarrow> TCGCard" where
  "pricedCard i p = mkCard (str i) (str ''Pikachu'') None None (Some (round64 p)) None None"

text \<open>
  A store with three cards, an array of the three, and a bundle of the first and the
  third at 100% of the trending prices.
\<close>

definition exampleStore :: "(unit, unit) store" where
  "exampleStore =
     \<lparr>cardObjects = [pricedCard ''a'' 1, pricedCard ''b'' 2, pricedCard ''c'' 5],
      cardArrays = [[0, 1, 2]],
      bundleObjects =
        [\<lparr>id_of = str ''bundle-123'', name_of = str ''Deal'', cardIDs_of = 0,
          pricingStrategy_of = Trending, percentageMultiplier_of = Fin 1,
          calculatedTotal_of = Fin 450, notes_of = None, createdAt_of = 0,
          lastModified_of = 0\<rparr>],
      stringArrays = [[str ''a'', str ''c'']],
      dateObjects = [1700000000000],
      statisticsObjects = [], validationObjects = [], rowObjects = [], rowArrays = [],
      numberArrays = []\<rparr>"

section \<open>Binary64 rounding\<close>

text \<open>\<open>ilog2 a\<close> is the exponent of the leading bit of a positive rational.\<close>

lemma powi_nat: "0 \<le> k \<Longrightarrow> (2::rat) powi k = 2 ^ nat k"
  by (simp add: power_int_def)

lemma powi_neg: "0 \<le> k \<Longrightarrow> (2::rat) powi (- k) = 1 / 2 ^ nat k"
  by (simp add: power_int_minus powi_nat field_simps)

lemma ilog2_bounds:
  assumes "0 < a"
  shows "2 powi (ilog2 a) \<le> a \<and> a < 2 powi (ilog2 a + 1)"
proof (cases "1 \<le> a")
  case True
  define n where "n = \<lfloor>a\<rfloor>"
  define k where "k = bitlen n"
  have n1: "1 \<le> n" using True by (simp add: n_def le_floor_iff)
  then have kb: "2 ^ nat (k - 1) \<le> n" "n < 2 ^ nat k"
    using bitlen_bounds [of n] by (simp_all add: k_def)
  have k1: "1 \<le> k" using n1 bitlen_eq_zero_iff [of n] bitlen_nonneg [of n]
    unfolding k_def by linarith
  have il: "ilog2 a = k - 1" using True by (simp add: ilog2_def n_def k_def)
  have "(2::rat) ^ nat (k - 1) \<le> of_int n"
    using kb(1) by (metis of_int_le_iff of_int_numeral of_int_power)
  also have "\<dots> \<le> a" by (simp add: n_def)
  finally have lo: "2 powi (k - 1) \<le> a" using k1 by (simp add: powi_nat)
  have "a < of_int (n + 1)" using floor_correct [of a] by (simp add: n_def)
  also have "\<dots> \<le> of_int (2 ^ nat k)" using kb(2) by (simp only: of_int_le_iff)
  also have "\<dots> = 2 powi k" using k1 by (simp add: powi_nat)
  finally have hi: "a < 2 powi k" .
  show ?thesis using lo hi by (simp add: il)
next
  case False
  define m where "m = \<lceil>1 / a\<rceil>"
  define k where "k = bitlen (m - 1)"
  have b1: "1 < 1 / a" using False assms by simp
  then have m2: "2 \<le> m" by (simp add: m_def le_ceiling_iff)
  then have kb: "2 ^ nat (k - 1) \<le> m - 1" "m - 1 < 2 ^ nat k"
    using bitlen_bounds [of "m - 1"] by (simp_all add: k_def)
  have k1: "1 \<le> k" using m2 bitlen_eq_zero_iff [of "m - 1"] bitlen_nonneg [of "m - 1"]
    unfolding k_def by linarith
  have il: "ilog2 a = - k" using False by (simp add: ilog2_def m_def k_def)
  have "1 / a \<le> of_int m" by (simp add: m_def)
  also have "\<dots> \<le> of_int (2 ^ nat k)" using kb(2) by (simp only: of_int_le_iff)
  finally have "1 / a \<le> 2 ^ nat k" by simp
  then have "1 / 2 ^ nat k \<le> a" using assms by (simp add: field_simps)
  then have lo: "2 powi (- k) \<le> a" using k1 by (simp add: powi_neg)
  have "(2::rat) ^ nat (k - 1) \<le> of_int (m - 1)"
    using kb(1) by (metis of_int_le_iff of_int_numeral of_int_power)
  also have "\<dots> < 1 / a" using ceiling_correct [of "1 / a"] by (simp add: m_def)
  finally have "a < 1 / 2 ^ nat (k - 1)" using assms by (simp add: field_simps)
  then have hi: "a < 2 powi (- k + 1)" using k1 powi_neg [of "k - 1"] by simp
  show ?thesis using lo hi by (simp add: il)
qed

lemma ilog2_unique:
  assumes "0 < a" and "2 powi e \<le> a" and "a < 2 powi (e + 1)"
  shows "ilog2 a = e"
proof -
  have b: "2 powi (ilog2 a) \<le> a" "a < 2 powi (ilog2 a + 1)"
    using ilog2_bounds [OF assms(1)] by simp_all
  have "\<not> e + 1 \<le> ilog2 a"
  proof
    assume "e + 1 \<le> ilog2 a"
    then have "(2::rat) powi (e + 1) \<le> 2 powi (ilog2 a)" by (rule power_int_increasing) simp
    then show False using b(1) assms(3) by linarith
  qed
  moreover have "\<not> ilog2 a + 1 \<le> e"
  proof
    assume "ilog2 a + 1 \<le> e"
    then have "(2::rat) powi (ilog2 a + 1) \<le> 2 powi e" by (rule power_int_increasing) simp
    then show False using b(2) assms(2) by linarith
  qed
  ultimately show ?thesis by linarith
qed

lemma roundTiesToEven_of_int: "roundTiesToEven (of_int n) = n"
  by (simp add: roundTiesToEven_def)

lemma roundTiesToEven_ge:
  assumes "of_int k \<le> x"
  shows "k \<le> roundTiesToEven x"
proof -
  have "k \<le> \<lfloor>x\<rfloor>" using assms by (simp add: le_floor_iff)
  then show ?thesis by (simp add: roundTiesToEven_def Let_def)
qed

lemma roundTiesToEven_le:
  assumes "x \<le> of_int k"
  shows "roundTiesToEven x \<le> k"
proof -
  have fl: "\<lfloor>x\<rfloor> \<le> k" using assms by (simp add: floor_le_iff) 
  show ?thesis
  proof (cases "x = of_int k")
    case True
    then show ?thesis by (simp add: roundTiesToEven_of_int)
  next
    case False
    then have "x < of_int k" using assms by simp
    then have "\<lfloor>x\<rfloor> < k" by (simp add: floor_less_iff)
    then show ?thesis by (simp add: roundTiesToEven_def Let_def)
  qed
qed


lemma ulp_pos: "0 < ulp a"
  by (simp add: ulp_def zero_less_power_int)

lemma ulp_of_ilog2: "- 1022 \<le> ilog2 a \<Longrightarrow> ulp a = 2 powi (ilog2 a - 52)"
  by (simp add: ulp_def max_def)

lemma ulp_subnormal: "ilog2 a \<le> - 1022 \<Longrightarrow> ulp a = 2 powi (- 1074)"
  by (simp add: ulp_def max_def)

lemma powi_shift: "e' = e + int k \<Longrightarrow> (2::rat) powi e' = 2 ^ k * 2 powi e"
  by (simp add: power_int_add power_int_of_nat)

lemma ulp_rounded:
  assumes "0 < a" and "r = of_int (roundTiesToEven (a / ulp a)) * ulp a" and "0 < r"
  shows "of_int (roundTiesToEven (r / ulp r)) * ulp r = r"
proof -
  define u where "u = ulp a"
  define n where "n = roundTiesToEven (a / u)"
  have upos: "0 < u" by (simp add: u_def ulp_pos)
  have r: "r = of_int n * u" using assms(2) by (simp add: u_def n_def)
  have key: "ulp r = u \<or> (ulp r = 2 * u \<and> n = 2 ^ 53)"
  proof (cases "- 1022 \<le> ilog2 a")
    case True
    define e where "e = ilog2 a"
    have u: "u = 2 powi (e - 52)" using True by (simp add: u_def e_def ulp_of_ilog2)
    have pe: "2 powi e = 2 ^ 52 * u" unfolding u by (rule powi_shift) simp
    have pe1: "2 powi (e + 1) = 2 ^ 53 * u" unfolding u by (rule powi_shift) simp
    have pe2: "2 powi (e + 1 + 1) = 2 ^ 54 * u" unfolding u by (rule powi_shift) simp
    have "2 powi e \<le> a" "a < 2 powi (e + 1)"
      using ilog2_bounds [OF assms(1)] unfolding e_def by blast+
    then have ab: "2 ^ 52 * u \<le> a" "a < 2 ^ 53 * u" unfolding pe pe1 .
    have "of_int (2 ^ 52) \<le> a / u" using ab(1) upos by (simp add: field_simps)
    then have n_lo: "2 ^ 52 \<le> n" unfolding n_def by (rule roundTiesToEven_ge)
    have "a / u \<le> of_int (2 ^ 53)" using ab(2) upos by (simp add: field_simps)
    then have n_hi: "n \<le> 2 ^ 53" unfolding n_def by (rule roundTiesToEven_le)
    show ?thesis
    proof (cases "n = 2 ^ 53")
      case True
      then have "r = 2 ^ 53 * u" by (simp add: r)
      then have "2 ^ 53 * u \<le> r" "r < 2 ^ 54 * u" using upos by simp_all
      then have "2 powi (e + 1) \<le> r" "r < 2 powi (e + 1 + 1)" unfolding pe1 pe2 .
      then have "ilog2 r = e + 1" using assms(3) by (intro ilog2_unique)
      then have "ulp r = 2 powi (e + 1 - 52)"
        using \<open>- 1022 \<le> ilog2 a\<close> by (simp add: ulp_of_ilog2 e_def)
      also have "\<dots> = 2 ^ 1 * u" unfolding u by (rule powi_shift) simp
      finally show ?thesis using True by simp
    next
      case False
      then have "n < 2 ^ 53" using n_hi by simp
      then have "rat_of_int n < of_int (2 ^ 53)" by (simp only: of_int_less_iff)
      then have hi: "r < 2 ^ 53 * u" using upos by (simp add: r)
      have "rat_of_int (2 ^ 52) \<le> of_int n" using n_lo by (simp only: of_int_le_iff)
      then have "2 ^ 52 * u \<le> r" using upos by (simp add: r)
      then have "2 powi e \<le> r" "r < 2 powi (e + 1)" using hi unfolding pe pe1 by blast+
      then have "ilog2 r = e" using assms(3) by (intro ilog2_unique)
      then show ?thesis using \<open>- 1022 \<le> ilog2 a\<close> by (simp add: ulp_of_ilog2 e_def u)
    qed
  next
    case False
    then have u: "u = 2 powi (- 1074)" by (simp add: u_def ulp_subnormal)
    have pe: "2 powi (- 1022) = 2 ^ 52 * u" unfolding u by (rule powi_shift) simp
    have pe1: "2 powi (- 1021) = 2 ^ 53 * u" unfolding u by (rule powi_shift) simp
    have "a < 2 powi (ilog2 a + 1)" using ilog2_bounds [OF assms(1)] by simp
    also have "\<dots> \<le> 2 powi (- 1022)" using False by (intro power_int_increasing) simp_all
    finally have "a < 2 ^ 52 * u" unfolding pe .
    then have "a / u \<le> of_int (2 ^ 52)" using upos by (simp add: field_simps)
    then have "n \<le> 2 ^ 52" unfolding n_def by (rule roundTiesToEven_le)
    then have "rat_of_int n \<le> of_int (2 ^ 52)" by (simp only: of_int_le_iff)
    then have "r < 2 ^ 53 * u" using upos by (simp add: r)
    then have rlt: "r < 2 powi (- 1021)" unfolding pe1 .
    have "\<not> - 1021 \<le> ilog2 r"
    proof
      assume "- 1021 \<le> ilog2 r"
      then have "(2::rat) powi (- 1021) \<le> 2 powi (ilog2 r)" by (intro power_int_increasing) simp_all
      then show False using ilog2_bounds [OF assms(3)] rlt by linarith
    qed
    then have "ulp r = u" by (simp add: ulp_subnormal u)
    then show ?thesis by simp
  qed
  from key show ?thesis
  proof
    assume "ulp r = u"
    then have "r / ulp r = of_int n" using upos by (simp add: r)
    then show ?thesis using \<open>ulp r = u\<close> by (simp add: roundTiesToEven_of_int r)
  next
    assume h: "ulp r = 2 * u \<and> n = 2 ^ 53"
    then have u2: "ulp r = 2 * u" and n2: "n = 2 ^ 53" by blast+
    have r2: "r = 2 ^ 53 * u" using n2 by (simp add: r)
    have "r / (2 * u) = of_int (2 ^ 52)" using upos by (simp add: r2)
    then have "roundTiesToEven (r / ulp r) = 2 ^ 52"
      unfolding u2 by (simp only: roundTiesToEven_of_int)
    then show ?thesis unfolding u2 by (simp add: r2)
  qed
qed


lemma round64_idem:
  assumes "round64 q = Fin r"
  shows "round64 r = Fin r"
proof (cases "q = 0")
  case True
  then show ?thesis using assms by (auto simp: round64_def)
next
  case False
  define a where "a = \<bar>q\<bar>"
  define r0 where "r0 = of_int (roundTiesToEven (a / ulp a)) * ulp a"
  have apos: "0 < a" using False by (simp add: a_def)
  have fin: "\<not> 2 ^ 1024 \<le> r0" and r: "r = sgn q * r0"
    using assms False by (auto simp: round64_def Let_def a_def r0_def split: if_splits)
  have "of_int 0 \<le> a / ulp a" using apos ulp_pos [of a] by simp
  then have "0 \<le> roundTiesToEven (a / ulp a)" by (rule roundTiesToEven_ge)
  then have r0_nonneg: "0 \<le> r0" using ulp_pos [of a] by (simp add: r0_def)
  show ?thesis
  proof (cases "r0 = 0")
    case True
    then show ?thesis by (simp add: r round64_def)
  next
    case False
    then have r0pos: "0 < r0" using r0_nonneg by simp
    have fixed: "of_int (roundTiesToEven (r0 / ulp r0)) * ulp r0 = r0"
      using apos r0_def r0pos by (rule ulp_rounded)
    have abs: "\<bar>r\<bar> = r0" using r0pos \<open>q \<noteq> 0\<close> by (simp add: r abs_mult)
    have sg: "sgn r * r0 = r" "r \<noteq> 0" "r < 0 \<longleftrightarrow> q < 0"
      using r0pos \<open>q \<noteq> 0\<close> by (auto simp: r sgn_mult mult_less_0_iff sgn_if)
    show ?thesis using fin by (simp add: round64_def [of r] Let_def abs fixed sg)
  qed
qed

lemma is_double_round64: "is_double (round64 q)"
  by (cases "round64 q") (simp_all add: round64_idem)

lemma is_double_js_add: "is_double (js_add x y)"
  by (cases x; cases y) (simp_all add: is_double_round64)

lemma js_add_zero: "is_double x \<Longrightarrow> js_add x (Fin 0) = x"
  by (cases x) simp_all

text \<open>
  A rounding is checked from its certificate: the exponent \<open>e\<close> of the leading bit, the
  spacing \<open>u\<close> of the binary64 values at that exponent, and the integer part \<open>k\<close> of the
  quotient by \<open>u\<close>.
\<close>

lemma roundTiesToEven_cert:
  assumes "of_int k \<le> x" and "x < of_int k + 1"
  shows "roundTiesToEven x =
           (if x - of_int k < 1 / 2 then k else if 1 / 2 < x - of_int k then k + 1
            else if even k then k else k + 1)"
proof -
  have "\<lfloor>x\<rfloor> = k" using assms by (intro floor_unique)
  then show ?thesis by (simp add: roundTiesToEven_def)
qed

lemma round64_cert:
  assumes e: "- 1022 \<le> e" and u: "u = 2 powi (e - 52)"
    and lo: "2 ^ 52 * u \<le> q" and hi: "q < 2 ^ 53 * u"
    and k: "of_int k \<le> q / u" "q / u < of_int k + 1"
    and r: "r = of_int (if q / u - of_int k < 1 / 2 then k
                        else if 1 / 2 < q / u - of_int k then k + 1
                        else if even k then k else k + 1) * u"
    and fin: "r < 2 ^ 1024"
  shows "round64 q = Fin r"
proof -
  have upos: "0 < u" by (simp add: u zero_less_power_int)
  have "0 < 2 ^ 52 * u" using upos by simp
  then have qpos: "0 < q" using lo by simp
  have "2 powi e = 2 ^ 52 * u" unfolding u by (rule powi_shift) simp
  moreover have "2 powi (e + 1) = 2 ^ 53 * u" unfolding u by (rule powi_shift) simp
  ultimately have "ilog2 q = e" using qpos lo hi by (intro ilog2_unique) simp_all
  then have ulp_q: "ulp q = u" using e by (simp add: ulp_of_ilog2 u)
  have "roundTiesToEven (q / u) =
          (if q / u - of_int k < 1 / 2 then k else if 1 / 2 < q / u - of_int k then k + 1
           else if even k then k else k + 1)"
    using k by (rule roundTiesToEven_cert)
  then have "r = of_int (roundTiesToEven (q / u)) * u" using r by simp
  moreover have "\<bar>q\<bar> = q" "sgn q = 1" "q \<noteq> 0" using qpos by simp_all
  moreover have "\<not> 2 ^ 1024 \<le> r" using fin by (simp only: not_le)
  ultimately show ?thesis unfolding round64_def Let_def by (simp only: ulp_q if_False mult_1)
qed

subsection \<open>The values of some literals\<close>

lemma round64_0_1: "round64 (1 / 10) = Fin (3602879701896397 / 36028797018963968)"
  by (rule round64_cert [where e = "- 4" and u = "1 / 72057594037927936" and k = 7205759403792793]) simp_all

lemma round64_0_2: "round64 (2 / 10) = Fin (3602879701896397 / 18014398509481984)"
  by (rule round64_cert [where e = "- 3" and u = "1 / 36028797018963968" and k = 7205759403792793]) simp_all

lemma round64_0_3: "round64 (3 / 10) = Fin (5404319552844595 / 18014398509481984)"
  by (rule round64_cert [where e = "- 2" and u = "1 / 18014398509481984" and k = 5404319552844595]) simp_all

lemma round64_0_05: "round64 (5 / 100) = Fin (3602879701896397 / 72057594037927936)"
  by (rule round64_cert [where e = "- 5" and u = "1 / 144115188075855872" and k = 7205759403792793]) simp_all

lemma round64_1: "round64 1 = Fin 1"
  by (rule round64_cert [where e = "0" and u = "1 / 4503599627370496" and k = 4503599627370496]) simp_all

lemma round64_2: "round64 2 = Fin 2"
  by (rule round64_cert [where e = "1" and u = "1 / 2251799813685248" and k = 4503599627370496]) simp_all

lemma round64_3: "round64 3 = Fin 3"
  by (rule round64_cert [where e = "1" and u = "1 / 2251799813685248" and k = 6755399441055744]) simp_all

lemma round64_5: "round64 5 = Fin 5"
  by (rule round64_cert [where e = "2" and u = "1 / 1125899906842624" and k = 5629499534213120]) simp_all

lemma round64_6: "round64 6 = Fin 6"
  by (rule round64_cert [where e = "2" and u = "1 / 1125899906842624" and k = 6755399441055744]) simp_all

lemma round64_0 [simp]: "round64 0 = Fin 0"
  by (simp add: round64_def)

definition multiplierError :: exn where
  "multiplierError = Error (str ''Multiplier must be between 0.1 and 1.0 (10% to 100%)'')"

lemma round64_9_10: "round64 (9 / 10) = Fin (8106479329266893 / 9007199254740992)"
  by (rule round64_cert [where e = "- 1" and u = "1 / 9007199254740992" and k = 8106479329266892]) simp_all

lemma round64_4_5: "round64 (4 / 5) = Fin (3602879701896397 / 4503599627370496)"
  by (rule round64_cert [where e = "- 1" and u = "1 / 9007199254740992" and k = 7205759403792793]) simp_all

lemma round64_7_10: "round64 (7 / 10) = Fin (3152519739159347 / 4503599627370496)"
  by (rule round64_cert [where e = "- 1" and u = "1 / 9007199254740992" and k = 6305039478318694]) simp_all

lemma round64_3_5: "round64 (3 / 5) = Fin (5404319552844595 / 9007199254740992)"
  by (rule round64_cert [where e = "- 1" and u = "1 / 9007199254740992" and k = 5404319552844595]) simp_all

lemma round64_1_2: "round64 (1 / 2) = Fin (1 / 2)"
  by (rule round64_cert [where e = "- 1" and u = "1 / 9007199254740992" and k = 4503599627370496]) simp_all

lemma round64_2_5: "round64 (2 / 5) = Fin (3602879701896397 / 9007199254740992)"
  by (rule round64_cert [where e = "- 2" and u = "1 / 18014398509481984" and k = 7205759403792793]) simp_all

lemma round64_1_5: "round64 (1 / 5) = Fin (3602879701896397 / 18014398509481984)"
  by (rule round64_cert [where e = "- 3" and u = "1 / 36028797018963968" and k = 7205759403792793]) simp_all

lemma round64_100: "round64 (100) = Fin (100)"
  by (rule round64_cert [where e = "6" and u = "1 / 70368744177664" and k = 7036874417766400]) simp_all

lemma round64_200: "round64 (200) = Fin (200)"
  by (rule round64_cert [where e = "7" and u = "1 / 35184372088832" and k = 7036874417766400]) simp_all

lemma round64_250: "round64 (250) = Fin (250)"
  by (rule round64_cert [where e = "7" and u = "1 / 35184372088832" and k = 8796093022208000]) simp_all

lemma round64_450: "round64 (450) = Fin (450)"
  by (rule round64_cert [where e = "8" and u = "1 / 17592186044416" and k = 7916483719987200]) simp_all

lemmas percent_values =
  round64_1 round64_9_10 round64_4_5 round64_7_10 round64_3_5 round64_1_2 round64_2_5
  round64_0_3 round64_1_5 round64_0_1

lemma lit_0_1_val: "lit_0_1 = Fin (3602879701896397 / 36028797018963968)"
  unfolding lit_0_1_def by (rule round64_0_1)

lemma inRange_1: "inRange (Fin 1)"
  by (simp add: inRange_def lit_0_1_val js_gt_def)

lemma inRange_lit_0_1: "inRange lit_0_1"
  by (simp add: inRange_def js_gt_def) (simp add: lit_0_1_val)

section \<open>The total of a bundle\<close>

lemma js_mul_commute: "js_mul x y = js_mul y x"
  by (cases x; cases y) (simp_all add: mult.commute)

lemma inRange_Fin: "inRange m \<Longrightarrow> \<exists>q. m = Fin q"
  by (cases m) (simp_all add: inRange_def js_gt_def lit_0_1_val)

lemma subtotal_js_sum:
  "foldl (\<lambda>sum c. js_add sum (nullish (getPriceForStrategy c strategy) (Fin 0))) acc cards
     = foldl js_add acc (map (tierOrZero strategy) cards)"
  by (induction cards arbitrary: acc) (simp_all add: tierOrZero_def)

lemma calculateBundleTotal_inRange:
  assumes "inRange m"
  shows "calculateBundleTotal cards strategy m
           = Inr (js_mul m (js_sum (map (tierOrZero strategy) cards)))"
proof -
  have "\<not> (js_lt m lit_0_1 \<or> js_gt m (Fin 1))" using assms by (simp add: inRange_def)
  then show ?thesis
    by (simp add: calculateBundleTotal_def Let_def subtotal_js_sum js_sum_def
        js_mul_commute [of m])
qed

lemma exactFrom_sum:
  "exactFrom a xs \<Longrightarrow> foldl js_add (Fin a) xs = Fin (a + sum_list (map finValue xs))"
proof (induction a xs rule: exactFrom.induct)
  case (2 a b xs)
  then show ?case by (simp add: add.assoc)
qed simp_all

lemma sum_list_perm:
  fixes f :: "'a \<Rightarrow> rat"
  assumes "mset xs = mset ys"
  shows "sum_list (map f xs) = sum_list (map f ys)"
proof -
  have "sum_mset (image_mset f (mset xs)) = sum_mset (image_mset f (mset ys))"
    using assms by simp
  then show ?thesis by (simp add: sum_mset_sum_list flip: mset_map)
qed

text \<open>
  Claim C1, as amended. For every sequence of cards, every strategy and every multiplier
  in the range \<open>[0.1, 1.0]\<close>, \<open>calculateBundleTotal\<close> returns the product of the multiplier
  and the sum, in the order of the sequence, of the price tier selected by the strategy,
  with \<open>0\<close> for a card whose selected tier is absent. The result is the same for a
  permutation of the sequence when no addition rounds, in either order. (Binary64
  addition is not associative: when an addition rounds, the order of the cards can
  change the total, as the counterexample below shows for the prices 0.1, 0.2, 0.3.)
\<close>

theorem calculateBundleTotal_sum:
  assumes "inRange m"
  shows "calculateBundleTotal cards strategy m
           = Inr (js_mul m (js_sum (map (tierOrZero strategy) cards)))
         \<and> (mset cards' = mset cards
              \<and> exactFrom 0 (map (tierOrZero strategy) cards)
              \<and> exactFrom 0 (map (tierOrZero strategy) cards')
            \<longrightarrow> calculateBundleTotal cards' strategy m = calculateBundleTotal cards strategy m)"
proof (intro conjI impI)
  show "calculateBundleTotal cards strategy m
           = Inr (js_mul m (js_sum (map (tierOrZero strategy) cards)))"
    using assms by (rule calculateBundleTotal_inRange)
next
  assume h: "mset cards' = mset cards
              \<and> exactFrom 0 (map (tierOrZero strategy) cards)
              \<and> exactFrom 0 (map (tierOrZero strategy) cards')"
  then have "sum_list (map (finValue \<circ> tierOrZero strategy) cards')
               = sum_list (map (finValue \<circ> tierOrZero strategy) cards)"
    by (intro sum_list_perm) simp
  then have "js_sum (map (tierOrZero strategy) cards') = js_sum (map (tierOrZero strategy) cards)"
    using h by (simp add: js_sum_def exactFrom_sum)
  then show "calculateBundleTotal cards' strategy m = calculateBundleTotal cards strategy m"
    using assms by (simp add: calculateBundleTotal_inRange)
qed

lemma tierOrZero_pricedCard: "tierOrZero Trending (pricedCard i p) = round64 p"
  by (simp add: tierOrZero_def pricedCard_def mkCard_def)

theorem calculateBundleTotal_sum_witness:
  "inRange (Fin 1)
   \<and> mset [pricedCard ''c'' 3, pricedCard ''b'' 2, pricedCard ''a'' 1]
       = mset [pricedCard ''a'' 1, pricedCard ''b'' 2, pricedCard ''c'' 3]
   \<and> calculateBundleTotal [pricedCard ''a'' 1, pricedCard ''b'' 2, pricedCard ''c'' 3]
         Trending (Fin 1) = Inr (Fin 6)
   \<and> calculateBundleTotal [pricedCard ''c'' 3, pricedCard ''b'' 2, pricedCard ''a'' 1]
         Trending (Fin 1) = Inr (Fin 6)"
proof -
  let ?xs = "[pricedCard ''a'' 1, pricedCard ''b'' 2, pricedCard ''c'' 3]"
  let ?ys = "[pricedCard ''c'' 3, pricedCard ''b'' 2, pricedCard ''a'' 1]"
  have p: "mset ?ys = mset ?xs" by (simp add: add.commute add.left_commute)
  have ex: "exactFrom 0 (map (tierOrZero Trending) ?xs)"
    by (simp add: tierOrZero_pricedCard round64_1 round64_2 round64_3 round64_6)
  have ey: "exactFrom 0 (map (tierOrZero Trending) ?ys)"
    by (simp add: tierOrZero_pricedCard round64_1 round64_2 round64_3 round64_5 round64_6)
  have v: "js_mul (Fin 1) (js_sum (map (tierOrZero Trending) ?xs)) = Fin 6"
    by (simp add: js_sum_def tierOrZero_pricedCard round64_1 round64_2 round64_3 round64_6)
  show ?thesis
    using calculateBundleTotal_sum [OF inRange_1, of ?xs Trending ?ys] p ex ey v inRange_1
    by simp
qed

theorem calculateBundleTotal_permutation_counterexample:
  "mset [pricedCard ''c'' (3 / 10), pricedCard ''b'' (2 / 10), pricedCard ''a'' (1 / 10)]
     = mset [pricedCard ''a'' (1 / 10), pricedCard ''b'' (2 / 10), pricedCard ''c'' (3 / 10)]
   \<and> calculateBundleTotal
       [pricedCard ''a'' (1 / 10), pricedCard ''b'' (2 / 10), pricedCard ''c'' (3 / 10)]
       Trending (Fin 1)
     = Inr (Fin (1351079888211149 / 2251799813685248))
   \<and> calculateBundleTotal
       [pricedCard ''c'' (3 / 10), pricedCard ''b'' (2 / 10), pricedCard ''a'' (1 / 10)]
       Trending (Fin 1)
     = Inr (Fin (5404319552844595 / 9007199254740992))
   \<and> calculateBundleTotal
       [pricedCard ''a'' (1 / 10), pricedCard ''b'' (2 / 10), pricedCard ''c'' (3 / 10)]
       Trending (Fin 1)
     \<noteq> calculateBundleTotal
       [pricedCard ''c'' (3 / 10), pricedCard ''b'' (2 / 10), pricedCard ''a'' (1 / 10)]
       Trending (Fin 1)"
proof -
  define a :: rat where "a = 3602879701896397 / 36028797018963968"
  define b :: rat where "b = 3602879701896397 / 18014398509481984"
  define c :: rat where "c = 5404319552844595 / 18014398509481984"
  define ab :: rat where "ab = 1351079888211149 / 4503599627370496"
  define abc :: rat where "abc = 1351079888211149 / 2251799813685248"
  define cb :: rat where "cb = 1 / 2"
  define cba :: rat where "cba = 5404319552844595 / 9007199254740992"
  have la: "round64 (1 / 10) = Fin a" unfolding a_def by (rule round64_0_1)
  have lb: "round64 (2 / 10) = Fin b" unfolding b_def by (rule round64_0_2)
  have lc: "round64 (3 / 10) = Fin c" unfolding c_def by (rule round64_0_3)
  have a0: "js_add (Fin 0) (Fin a) = Fin a" using round64_idem [OF la] by simp
  have c0: "js_add (Fin 0) (Fin c) = Fin c" using round64_idem [OF lc] by simp
  have s1: "js_add (Fin a) (Fin b) = Fin ab" unfolding js_add.simps a_def b_def ab_def
    by (rule round64_cert [where e = "- 2" and u = "1 / 18014398509481984"
          and k = 5404319552844595]) simp_all
  have s2: "js_add (Fin ab) (Fin c) = Fin abc" unfolding js_add.simps ab_def c_def abc_def
    by (rule round64_cert [where e = "- 1" and u = "1 / 9007199254740992"
          and k = 5404319552844595]) simp_all
  have t1: "js_add (Fin c) (Fin b) = Fin cb" unfolding js_add.simps c_def b_def cb_def
    by (rule round64_cert [where e = "- 1" and u = "1 / 9007199254740992"
          and k = 4503599627370496]) simp_all
  have t2: "js_add (Fin cb) (Fin a) = Fin cba" unfolding js_add.simps cb_def a_def cba_def
    by (rule round64_cert [where e = "- 1" and u = "1 / 9007199254740992"
          and k = 5404319552844595]) simp_all
  have m1: "js_mul (Fin 1) (Fin abc) = Fin abc"
    using round64_idem [of "ab + c" abc] s2 by simp
  have m2: "js_mul (Fin 1) (Fin cba) = Fin cba"
    using round64_idem [of "cb + a" cba] t2 by simp
  have x: "calculateBundleTotal
       [pricedCard ''a'' (1 / 10), pricedCard ''b'' (2 / 10), pricedCard ''c'' (3 / 10)]
       Trending (Fin 1) = Inr (Fin abc)"
    by (simp only: calculateBundleTotal_inRange [OF inRange_1] list.map tierOrZero_pricedCard
        js_sum_def foldl.simps la lb lc a0 s1 s2 m1)
  have y: "calculateBundleTotal
       [pricedCard ''c'' (3 / 10), pricedCard ''b'' (2 / 10), pricedCard ''a'' (1 / 10)]
       Trending (Fin 1) = Inr (Fin cba)"
    by (simp only: calculateBundleTotal_inRange [OF inRange_1] list.map tierOrZero_pricedCard
        js_sum_def foldl.simps la lb lc c0 t1 t2 m2)
  have ne: "abc \<noteq> cba" by (simp add: abc_def cba_def)
  have p: "mset [pricedCard ''c'' (3 / 10), pricedCard ''b'' (2 / 10), pricedCard ''a'' (1 / 10)]
     = mset [pricedCard ''a'' (1 / 10), pricedCard ''b'' (2 / 10), pricedCard ''c'' (3 / 10)]"
    by (simp add: add.commute add.left_commute)
  show ?thesis unfolding x y using ne p by (simp add: abc_def cba_def)
qed

text \<open>
  Claim C10. For the empty sequence of cards, every strategy and every multiplier in the
  range \<open>[0.1, 1.0]\<close>, \<open>calculateBundleTotal\<close> returns \<open>0\<close>: it does not fail.
\<close>

theorem calculateBundleTotal_empty:
  "inRange m \<Longrightarrow> calculateBundleTotal [] strategy m = Inr (Fin 0)"
  using inRange_Fin [of m]
  by (auto simp: calculateBundleTotal_inRange js_sum_def round64_def)

theorem calculateBundleTotal_empty_witness:
  "inRange lit_0_1 \<and> calculateBundleTotal ([] :: TCGCard list) Average lit_0_1 = Inr (Fin 0)
   \<and> inRange (Fin 1) \<and> calculateBundleTotal ([] :: TCGCard list) Low (Fin 1) = Inr (Fin 0)"
proof -
  have "calculateBundleTotal ([] :: TCGCard list) Average lit_0_1 = Inr (Fin 0)"
    using inRange_lit_0_1 by (rule calculateBundleTotal_empty)
  moreover have "calculateBundleTotal ([] :: TCGCard list) Low (Fin 1) = Inr (Fin 0)"
    using inRange_1 by (rule calculateBundleTotal_empty)
  ultimately show ?thesis using inRange_lit_0_1 inRange_1 by simp
qed

section \<open>The composite key of a card\<close>

lemma str_append: "str (a @ b) = str a @ str b"
  by (simp add: str_def)

lemma str_inj: "str a = str b \<longleftrightarrow> a = b"
proof -
  have "inj (\<lambda>c. (of_nat (of_char c) :: 16 word))"
  proof (rule injI)
    fix a b :: char
    assume "(of_nat (of_char a) :: 16 word) = of_nat (of_char b)"
    then have "unat (of_nat (of_char a) :: 16 word) = unat (of_nat (of_char b) :: 16 word)"
      by simp
    moreover have lt: "(of_char c :: nat) < 256" for c
      by (metis of_char_mod_256 mod_less_divisor zero_less_numeral)
    have "(of_char a :: nat) < 2 ^ 16" "(of_char b :: nat) < 2 ^ 16"
      by (rule less_trans [OF lt], simp)+
    ultimately have "(of_char a :: nat) = of_char b" by (simp add: unat_of_nat)
    then show "a = b" by simp
  qed
  then show ?thesis unfolding str_def by (simp add: inj_map_eq_map)
qed

text \<open>
  Claim C9, as amended. \<open>getCardIdentifier\<close> returns the trimmed card name, the trimmed
  set name and the trimmed card number (the empty string for an absent one), joined by
  \<open>|\<close>. Two cards with the same card name, set name and card number have the same
  identifier, whatever their \<^verbatim>\<open>id\<close>s. Two cards that agree on two of the three fields
  have different identifiers when the third field, trimmed (and empty when absent),
  differs. (Fields that differ only in surrounding white space, or an absent and an
  empty field, give the same identifier.)
\<close>

theorem getCardIdentifier_key:
  "getCardIdentifier c1 =
     trim (cardName c1) @ str ''|'' @ nullish (map_option trim (setName c1)) [] @ str ''|''
       @ nullish (map_option trim (cardNumber c1)) []
   \<and> (cardName c1 = cardName c2 \<and> setName c1 = setName c2 \<and> cardNumber c1 = cardNumber c2
        \<longrightarrow> getCardIdentifier c1 = getCardIdentifier c2)
   \<and> (setName c1 = setName c2 \<and> cardNumber c1 = cardNumber c2
        \<and> trim (cardName c1) \<noteq> trim (cardName c2)
        \<longrightarrow> getCardIdentifier c1 \<noteq> getCardIdentifier c2)
   \<and> (cardName c1 = cardName c2 \<and> cardNumber c1 = cardNumber c2
        \<and> nullish (map_option trim (setName c1)) [] \<noteq> nullish (map_option trim (setName c2)) []
        \<longrightarrow> getCardIdentifier c1 \<noteq> getCardIdentifier c2)
   \<and> (cardName c1 = cardName c2 \<and> setName c1 = setName c2
        \<and> nullish (map_option trim (cardNumber c1)) []
            \<noteq> nullish (map_option trim (cardNumber c2)) []
        \<longrightarrow> getCardIdentifier c1 \<noteq> getCardIdentifier c2)"
  by (simp add: getCardIdentifier_def Let_def)

theorem getCardIdentifier_key_witness:
  "card_id (mkCard (str ''1'') (str ''Charizard'') (Some (str ''Base Set'')) (Some (str ''4/102'')) None None None)
     \<noteq> card_id (mkCard (str ''2'') (str ''Charizard'') (Some (str ''Base Set'')) (Some (str ''4/102'')) None None None)
   \<and> getCardIdentifier (mkCard (str ''1'') (str ''Charizard'') (Some (str ''Base Set'')) (Some (str ''4/102'')) None None None)
     = getCardIdentifier (mkCard (str ''2'') (str ''Charizard'') (Some (str ''Base Set'')) (Some (str ''4/102'')) None None None)
   \<and> getCardIdentifier (mkCard (str ''1'') (str ''Charizard'') (Some (str ''Base Set'')) (Some (str ''4/102'')) None None None)
     = str ''Charizard|Base Set|4/102''
   \<and> getCardIdentifier (mkCard (str ''1'') (str ''Charizard'') (Some (str ''Base Set'')) (Some (str ''4/102'')) None None None)
     \<noteq> getCardIdentifier (mkCard (str ''1'') (str ''Blastoise'') (Some (str ''Base Set'')) (Some (str ''4/102'')) None None None)
   \<and> getCardIdentifier (mkCard (str ''1'') (str ''Charizard'') (Some (str ''Base Set'')) (Some (str ''4/102'')) None None None)
     \<noteq> getCardIdentifier (mkCard (str ''1'') (str ''Charizard'') None (Some (str ''4/102'')) None None None)
   \<and> getCardIdentifier (mkCard (str ''1'') (str ''Charizard'') (Some (str ''Base Set'')) (Some (str ''4/102'')) None None None)
     \<noteq> getCardIdentifier (mkCard (str ''1'') (str ''Charizard'') (Some (str ''Base Set'')) (Some (str ''5/102'')) None None None)"
proof -
  let ?A = "mkCard (str ''1'') (str ''Charizard'') (Some (str ''Base Set'')) (Some (str ''4/102'')) None None None"
  let ?B = "mkCard (str ''2'') (str ''Charizard'') (Some (str ''Base Set'')) (Some (str ''4/102'')) None None None"
  let ?C = "mkCard (str ''1'') (str ''Blastoise'') (Some (str ''Base Set'')) (Some (str ''4/102'')) None None None"
  let ?D = "mkCard (str ''1'') (str ''Charizard'') None (Some (str ''4/102'')) None None None"
  let ?E = "mkCard (str ''1'') (str ''Charizard'') (Some (str ''Base Set'')) (Some (str ''5/102'')) None None None"
  have t1: "trim (str ''Charizard'') = str ''Charizard''"
    by (simp add: trim_def str_def isWhiteSpace_def)
  have t2: "trim (str ''Blastoise'') = str ''Blastoise''"
    by (simp add: trim_def str_def isWhiteSpace_def)
  have t3: "trim (str ''Base Set'') = str ''Base Set''"
    by (simp add: trim_def str_def isWhiteSpace_def)
  have t4: "trim (str ''4/102'') = str ''4/102''"
    by (simp add: trim_def str_def isWhiteSpace_def)
  have t5: "trim (str ''5/102'') = str ''5/102''"
    by (simp add: trim_def str_def isWhiteSpace_def)
  have t3n: "trim (str ''Base Set'') \<noteq> []" by (simp add: t3) (simp add: str_def)
  have i: "card_id ?A \<noteq> card_id ?B" by (simp add: mkCard_def str_inj)
  have ab: "getCardIdentifier ?A = getCardIdentifier ?B"
    using getCardIdentifier_key [of ?A ?B] by (simp add: getCardIdentifier_def mkCard_def)
  have a: "getCardIdentifier ?A = str ''Charizard|Base Set|4/102''"
    by (simp add: getCardIdentifier_def mkCard_def t1 t3 t4 flip: str_append)
  have ac: "getCardIdentifier ?A \<noteq> getCardIdentifier ?C"
    using getCardIdentifier_key [of ?A ?C]
    by (simp add: getCardIdentifier_def mkCard_def t1 t2 str_inj)
  have ad: "getCardIdentifier ?A \<noteq> getCardIdentifier ?D"
    using getCardIdentifier_key [of ?A ?D] t3n
    by (simp add: getCardIdentifier_def mkCard_def)
  have ae: "getCardIdentifier ?A \<noteq> getCardIdentifier ?E"
    using getCardIdentifier_key [of ?A ?E]
    by (simp add: getCardIdentifier_def mkCard_def t4 t5 str_inj)
  show ?thesis using i ab a ac ad ae by simp
qed

theorem getCardIdentifier_differs_counterexample:
  "cardName (mkCard (str ''1'') (str ''Charizard'') None None None None None)
     \<noteq> cardName (mkCard (str ''2'') (str ''Charizard '') None None None None None)
   \<and> setName (mkCard (str ''1'') (str ''Charizard'') None None None None None)
     = setName (mkCard (str ''2'') (str ''Charizard '') None None None None None)
   \<and> cardNumber (mkCard (str ''1'') (str ''Charizard'') None None None None None)
     = cardNumber (mkCard (str ''2'') (str ''Charizard '') None None None None None)
   \<and> getCardIdentifier (mkCard (str ''1'') (str ''Charizard'') None None None None None)
     = getCardIdentifier (mkCard (str ''2'') (str ''Charizard '') None None None None None)"
  by (simp add: mkCard_def getCardIdentifier_def trim_def str_def isWhiteSpace_def)

section \<open>The range of the multiplier\<close>

text \<open>
  \<open>inRange\<close> compares with the literals, as the program does. For a binary64 value it
  says that the value lies in the interval \<open>[1/10, 1]\<close> of the rationals: no binary64 value
  lies between one tenth and the literal \<^verbatim>\<open>0.1\<close>. NaN and the infinities are not in the
  range.
\<close>

lemma double_ge_tenth:
  assumes "round64 q = Fin q" and "1 / 10 \<le> q"
  shows "3602879701896397 / 36028797018963968 \<le> q"
proof (rule ccontr)
  assume "\<not> 3602879701896397 / 36028797018963968 \<le> q"
  then have lt: "q < 3602879701896397 / 36028797018963968" by simp
  have qpos: "0 < q" using assms(2) by simp
  have "ilog2 q = - 4" using qpos assms(2) lt by (intro ilog2_unique) simp_all
  then have u: "ulp q = 1 / 72057594037927936" by (simp add: ulp_of_ilog2)
  define n where "n = roundTiesToEven (q / ulp q)"
  have "rat_of_int n * ulp q = q"
    using assms(1) qpos by (auto simp: round64_def Let_def n_def split: if_splits)
  then have q: "q = rat_of_int n / 72057594037927936" by (simp add: u)
  have "rat_of_int 72057594037927936 \<le> rat_of_int (n * 10)"
    using assms(2) by (simp add: q)
  then have "72057594037927936 \<le> n * 10" by (simp only: of_int_le_iff)
  moreover have "rat_of_int n < rat_of_int 7205759403792794" using lt by (simp add: q)
  then have "n < 7205759403792794" by (simp only: of_int_less_iff)
  ultimately show False by arith
qed

lemma inRange_double:
  assumes "is_double (Fin q)"
  shows "inRange (Fin q) \<longleftrightarrow> 1 / 10 \<le> q \<and> q \<le> 1"
proof
  assume "inRange (Fin q)"
  then show "1 / 10 \<le> q \<and> q \<le> 1"
    by (simp add: inRange_def js_gt_def lit_0_1_val)
next
  assume h: "1 / 10 \<le> q \<and> q \<le> 1"
  then have "3602879701896397 / 36028797018963968 \<le> q"
    using assms double_ge_tenth by simp
  then show "inRange (Fin q)" using h by (simp add: inRange_def js_gt_def lit_0_1_val)
qed

lemma not_inRange_below_or_above:
  "q < 1 / 10 \<or> 1 < q \<Longrightarrow> \<not> inRange (Fin q)"
  by (auto simp: inRange_def js_gt_def lit_0_1_val)

lemma not_inRange_special: "\<not> inRange NaN \<and> \<not> inRange PosInf \<and> \<not> inRange NegInf"
  by (simp add: inRange_def js_gt_def lit_0_1_val)

section \<open>Rejected multipliers\<close>

text \<open>
  The guard of \<open>calculateBundleTotal\<close> and of \<open>validateBundle\<close> holds of the numbers out of
  the range, but for NaN, of which both comparisons are false.
\<close>

lemma guard_iff: "js_lt m lit_0_1 \<or> js_gt m (Fin 1) \<longleftrightarrow> m \<noteq> NaN \<and> \<not> inRange m"
  by (cases m) (auto simp: inRange_def js_gt_def)

lemma calculateBundleTotal_rejects:
  "m \<noteq> NaN \<Longrightarrow> \<not> inRange m \<Longrightarrow>
   calculateBundleTotal cards strategy m
     = Inl (Error (str ''Multiplier must be between 0.1 and 1.0 (10% to 100%)''))"
  by (simp add: calculateBundleTotal_def guard_iff)

lemma updateBundleTotal_eq:
  "updateBundleTotal now bundle cards =
     (case calculateBundleTotal (bundleCards bundle cards) (pricingStrategy bundle)
             (percentageMultiplier bundle) of
        Inl e \<Rightarrow> Inl e
      | Inr newTotal \<Rightarrow> Inr (bundle\<lparr>calculatedTotal := newTotal, lastModified := now\<rparr>))"
  by (simp add: updateBundleTotal_def bundleCards_def)

lemma updateBundleTotal_rejects:
  "percentageMultiplier bundle \<noteq> NaN \<Longrightarrow> \<not> inRange (percentageMultiplier bundle) \<Longrightarrow>
   updateBundleTotal now bundle cards
     = Inl (Error (str ''Multiplier must be between 0.1 and 1.0 (10% to 100%)''))"
  by (simp add: updateBundleTotal_eq calculateBundleTotal_rejects)

lemma rejected_examples:
  "calculateBundleTotal [pricedCard ''a'' 1] Trending (round64 (5 / 100))
     = Inl (Error (str ''Multiplier must be between 0.1 and 1.0 (10% to 100%)''))"
  "calculateBundleTotal [pricedCard ''a'' 1] Average (Fin (3 / 2))
     = Inl (Error (str ''Multiplier must be between 0.1 and 1.0 (10% to 100%)''))"
  "calculateBundleTotal [pricedCard ''a'' 1] Low (Fin (- 1))
     = Inl (Error (str ''Multiplier must be between 0.1 and 1.0 (10% to 100%)''))"
  "updateBundleTotal 1700000000001 (mkBundle (str ''Deal'') [str ''a''] Trending (Fin (3 / 2)))
       [pricedCard ''a'' 1]
     = Inl (Error (str ''Multiplier must be between 0.1 and 1.0 (10% to 100%)''))"
  using round64_0_05
  by (simp_all add: calculateBundleTotal_rejects updateBundleTotal_rejects mkBundle_def
      inRange_def js_gt_def lit_0_1_val)

lemma js_mul_NaN: "js_mul x NaN = NaN"
  by (cases x) simp_all

lemma calculateBundleTotal_NaN: "calculateBundleTotal cards strategy NaN = Inr NaN"
  by (simp add: calculateBundleTotal_def js_gt_def js_mul_NaN)

text \<open>
  Claim C2 fails for one multiplier. \<open>calculateBundleTotal\<close> fails with the error for an
  invalid multiplier, and returns no number, for every multiplier strictly below \<open>0.1\<close> or
  strictly above \<open>1.0\<close>, and so does \<open>updateBundleTotal\<close> (the lemmas above). But NaN is not
  in the range \<open>[0.1, 1.0]\<close>, and the guard is false for it: \<open>calculateBundleTotal\<close> returns
  NaN, and \<open>updateBundleTotal\<close> returns the bundle with the total NaN.
\<close>

theorem invalid_multiplier_NaN_accepted:
  "\<not> inRange (percentageMultiplier (mkBundle (str ''Deal'') [str ''a''] Trending NaN))
   \<and> calculateBundleTotal [pricedCard ''a'' 5] Trending NaN = Inr NaN
   \<and> updateBundleTotal 1700000000001 (mkBundle (str ''Deal'') [str ''a''] Trending NaN)
        [pricedCard ''a'' 5]
     = Inr ((mkBundle (str ''Deal'') [str ''a''] Trending NaN)
             \<lparr>calculatedTotal := NaN, lastModified := 1700000000001\<rparr>)"
  by (simp add: updateBundleTotal_eq calculateBundleTotal_NaN mkBundle_def inRange_def)

section \<open>The price table\<close>

lemma generatePriceTable_map:
  "generatePriceTable c =
     map (\<lambda>p. \<lparr>percentage = Fin p,
               trendingValue = js_mul (nullish (trendingPrice c) (Fin 0)) (js_div (Fin p) (Fin 100)),
               averageValue = js_mul (nullish (averagePrice c) (Fin 0)) (js_div (Fin p) (Fin 100)),
               lowValue = js_mul (nullish (lowPrice c) (Fin 0)) (js_div (Fin p) (Fin 100))\<rparr>)
       [100, 90, 80, 70, 60, 50, 40, 30, 20, 10]"
  by (simp add: generatePriceTable_def Let_def)

text \<open>
  Claim C3. For every card, \<open>generatePriceTable\<close> returns 10 rows, whose percentages are
  100, 90, 80, 70, 60, 50, 40, 30, 20, 10 in this strictly descending order; the three
  values of the row for the percentage \<open>p\<close> are \<^verbatim>\<open>(trendingPrice ?? 0) * (p / 100)\<close>,
  \<^verbatim>\<open>(averagePrice ?? 0) * (p / 100)\<close> and \<^verbatim>\<open>(lowPrice ?? 0) * (p / 100)\<close>. A card with
  no price tier has 0 in every value of every row. A card with the trending price 200
  has the trending value 100 at the percentage 50, and 200 at the percentage 100.
\<close>

theorem generatePriceTable_rows:
  "generatePriceTable c =
     map (\<lambda>p. \<lparr>percentage = Fin p,
               trendingValue = js_mul (nullish (trendingPrice c) (Fin 0)) (js_div (Fin p) (Fin 100)),
               averageValue = js_mul (nullish (averagePrice c) (Fin 0)) (js_div (Fin p) (Fin 100)),
               lowValue = js_mul (nullish (lowPrice c) (Fin 0)) (js_div (Fin p) (Fin 100))\<rparr>)
       [100, 90, 80, 70, 60, 50, 40, 30, 20, 10]
   \<and> length (generatePriceTable c) = 10
   \<and> map percentage (generatePriceTable c) = map Fin [100, 90, 80, 70, 60, 50, 40, 30, 20, 10]
   \<and> sorted_wrt js_gt (map percentage (generatePriceTable c))
   \<and> (trendingPrice c = None \<and> averagePrice c = None \<and> lowPrice c = None \<longrightarrow>
        (\<forall>row \<in> set (generatePriceTable c).
           trendingValue row = Fin 0 \<and> averageValue row = Fin 0 \<and> lowValue row = Fin 0))
   \<and> (trendingPrice c = Some (Fin 200) \<longrightarrow>
        (\<forall>row \<in> set (generatePriceTable c).
           (percentage row = Fin 50 \<longrightarrow> trendingValue row = Fin 100)
           \<and> (percentage row = Fin 100 \<longrightarrow> trendingValue row = Fin 200)))"
proof (intro conjI impI)
  show "generatePriceTable c =
     map (\<lambda>p. \<lparr>percentage = Fin p,
               trendingValue = js_mul (nullish (trendingPrice c) (Fin 0)) (js_div (Fin p) (Fin 100)),
               averageValue = js_mul (nullish (averagePrice c) (Fin 0)) (js_div (Fin p) (Fin 100)),
               lowValue = js_mul (nullish (lowPrice c) (Fin 0)) (js_div (Fin p) (Fin 100))\<rparr>)
       [100, 90, 80, 70, 60, 50, 40, 30, 20, 10]"
    by (rule generatePriceTable_map)
  show "length (generatePriceTable c) = 10" by (simp add: generatePriceTable_map)
  show "map percentage (generatePriceTable c) = map Fin [100, 90, 80, 70, 60, 50, 40, 30, 20, 10]"
    by (simp add: generatePriceTable_map)
  show "sorted_wrt js_gt (map percentage (generatePriceTable c))"
    by (simp add: generatePriceTable_map js_gt_def)
next
  assume "trendingPrice c = None \<and> averagePrice c = None \<and> lowPrice c = None"
  then show "\<forall>row \<in> set (generatePriceTable c).
           trendingValue row = Fin 0 \<and> averageValue row = Fin 0 \<and> lowValue row = Fin 0"
    by (simp add: generatePriceTable_map percent_values)
next
  assume "trendingPrice c = Some (Fin 200)"
  then show "\<forall>row \<in> set (generatePriceTable c).
           (percentage row = Fin 50 \<longrightarrow> trendingValue row = Fin 100)
           \<and> (percentage row = Fin 100 \<longrightarrow> trendingValue row = Fin 200)"
    by (simp add: generatePriceTable_map round64_1 round64_1_2 round64_100 round64_200)
qed

theorem generatePriceTable_rows_witness:
  "trendingPrice (mkCard (str ''1'') (str ''Charizard'') None None None None None) = None
   \<and> map trendingValue
         (generatePriceTable (mkCard (str ''1'') (str ''Charizard'') None None None None None))
       = [Fin 0, Fin 0, Fin 0, Fin 0, Fin 0, Fin 0, Fin 0, Fin 0, Fin 0, Fin 0]
   \<and> map averageValue
         (generatePriceTable (mkCard (str ''1'') (str ''Charizard'') None None None None None))
       = [Fin 0, Fin 0, Fin 0, Fin 0, Fin 0, Fin 0, Fin 0, Fin 0, Fin 0, Fin 0]
   \<and> map lowValue
         (generatePriceTable (mkCard (str ''1'') (str ''Charizard'') None None None None None))
       = [Fin 0, Fin 0, Fin 0, Fin 0, Fin 0, Fin 0, Fin 0, Fin 0, Fin 0, Fin 0]
   \<and> trendingPrice (mkCard (str ''2'') (str ''Blastoise'') None None (Some (Fin 200)) None None)
       = Some (Fin 200)
   \<and> generatePriceTable (mkCard (str ''2'') (str ''Blastoise'') None None (Some (Fin 200)) None None) ! 5
       = \<lparr>percentage = Fin 50, trendingValue = Fin 100, averageValue = Fin 0, lowValue = Fin 0\<rparr>
   \<and> generatePriceTable (mkCard (str ''2'') (str ''Blastoise'') None None (Some (Fin 200)) None None) ! 0
       = \<lparr>percentage = Fin 100, trendingValue = Fin 200, averageValue = Fin 0, lowValue = Fin 0\<rparr>"
proof -
  let ?a = "mkCard (str ''1'') (str ''Charizard'') None None None None None"
  let ?b = "mkCard (str ''2'') (str ''Blastoise'') None None (Some (Fin 200)) None None"
  have a: "trendingPrice ?a = None \<and> averagePrice ?a = None \<and> lowPrice ?a = None"
    by (simp add: mkCard_def)
  have b: "trendingPrice ?b = Some (Fin 200)" "averagePrice ?b = None" "lowPrice ?b = None"
    by (simp_all add: mkCard_def)
  have ta: "generatePriceTable ?a =
      map (\<lambda>p. \<lparr>percentage = Fin p, trendingValue = Fin 0, averageValue = Fin 0, lowValue = Fin 0\<rparr>)
        [100, 90, 80, 70, 60, 50, 40, 30, 20, 10]"
    using generatePriceTable_rows [of ?a] a by (simp add: percent_values)
  have tb: "generatePriceTable ?b ! 5
       = \<lparr>percentage = Fin 50, trendingValue = Fin 100, averageValue = Fin 0, lowValue = Fin 0\<rparr>"
      "generatePriceTable ?b ! 0
       = \<lparr>percentage = Fin 100, trendingValue = Fin 200, averageValue = Fin 0, lowValue = Fin 0\<rparr>"
    using generatePriceTable_rows [of ?b] b
    by (simp_all add: round64_1 round64_1_2 round64_100 round64_200)
  show ?thesis using a b tb by (simp add: ta)
qed

section \<open>The statistics of a bundle\<close>

lemma statistics_fold:
  assumes "is_double t" and "is_double a" and "is_double l"
  shows "foldl statisticsStep (t, a, l, v) cs =
           (foldl js_add t (map (tierOrZero Trending) cs),
            foldl js_add a (map (tierOrZero Average) cs),
            foldl js_add l (map (tierOrZero Low) cs),
            v + length (filter (\<lambda>c. trendingPrice c \<noteq> None) cs))"
  using assms
proof (induction cs arbitrary: t a l v)
  case Nil
  then show ?case by simp
next
  case (Cons c cs)
  then show ?case
    by (simp add: tierOrZero_def js_add_zero is_double_js_add split: option.splits)
qed

text \<open>
  Claim C4. For every bundle and every list of cards, \<open>calculateBundleStatistics\<close>
  computes, over the cards whose \<^verbatim>\<open>id\<close> is in \<^verbatim>\<open>cardIDs\<close>, one sum for each strategy, an
  absent tier counting as 0, and applies no multiplier; \<^verbatim>\<open>cardCount\<close> is the length of
  \<^verbatim>\<open>cardIDs\<close>, \<^verbatim>\<open>validCardCount\<close> the number of those cards whose trending price is present
  (whatever their other prices), and \<^verbatim>\<open>selectedTotal\<close> the \<^verbatim>\<open>calculatedTotal\<close> of the bundle
  as it is.
\<close>

theorem calculateBundleStatistics_totals:
  "calculateBundleStatistics bundle cards =
     \<lparr>trendingTotal = js_sum (map (tierOrZero Trending) (bundleCards bundle cards)),
      averageTotal = js_sum (map (tierOrZero Average) (bundleCards bundle cards)),
      lowTotal = js_sum (map (tierOrZero Low) (bundleCards bundle cards)),
      selectedTotal = calculatedTotal bundle,
      cardCount = length (cardIDs bundle),
      validCardCount = length (filter (\<lambda>c. trendingPrice c \<noteq> None) (bundleCards bundle cards))\<rparr>"
proof -
  have "is_double (Fin 0)" by simp
  then show ?thesis
    by (simp add: calculateBundleStatistics_def statistics_fold js_sum_def bundleCards_def Let_def)
qed

lemma inRange_0_8: "inRange (round64 (4 / 5))"
  by (simp add: round64_4_5 inRange_def js_gt_def lit_0_1_val)

lemma product_450_0_8:
  "js_mul (round64 (4 / 5)) (Fin 450) = Fin 360"
  unfolding round64_4_5 js_mul.simps
  by (rule round64_cert [where e = "8" and u = "1 / 17592186044416" and k = 6333186975989760])
    simp_all

text \<open>
  The scenario of the specification: three cards with the average prices 100, 150 and 200
  and no other price, the strategy \<^verbatim>\<open>average\<close> and the multiplier \<^verbatim>\<open>0.8\<close>. The total is
  360 (the product of 450 and the binary64 value of \<^verbatim>\<open>0.8\<close> rounds to it), and the
  statistics are 0, 450 and 0, with no valid card.
\<close>

theorem calculateBundleStatistics_totals_witness:
  "calculateBundleTotal
     [mkCard (str ''1'') (str ''A'') None None None (Some (Fin 100)) None,
      mkCard (str ''2'') (str ''B'') None None None (Some (Fin 150)) None,
      mkCard (str ''3'') (str ''C'') None None None (Some (Fin 200)) None]
     Average (round64 (4 / 5)) = Inr (Fin 360)
   \<and> calculateBundleStatistics
       (mkBundle (str ''Deal'') [str ''1'', str ''2'', str ''3''] Average (round64 (4 / 5)))
       [mkCard (str ''1'') (str ''A'') None None None (Some (Fin 100)) None,
        mkCard (str ''2'') (str ''B'') None None None (Some (Fin 150)) None,
        mkCard (str ''3'') (str ''C'') None None None (Some (Fin 200)) None]
     = \<lparr>trendingTotal = Fin 0, averageTotal = Fin 450, lowTotal = Fin 0,
        selectedTotal = Fin 450, cardCount = 3, validCardCount = 0\<rparr>"
  by (simp add: calculateBundleTotal_inRange inRange_0_8 calculateBundleStatistics_totals
      bundleCards_def tierOrZero_def mkCard_def mkBundle_def js_sum_def
      round64_100 round64_250 round64_450 product_450_0_8)

section \<open>The functions on references\<close>

text \<open>
  Each function on references returns what the function on values returns on the
  contents of its arguments, and leaves every object of the store as it was: it allocates,
  and writes only to what it has allocated.
\<close>

lemma prefix_nth: "prefix xs ys \<Longrightarrow> i < length xs \<Longrightarrow> ys ! i = xs ! i"
  by (auto simp: prefix_def nth_append)

lemma unchanged_refl: "unchanged s s"
  by (simp add: unchanged_def)

lemma unchanged_trans: "unchanged s s' \<Longrightarrow> unchanged s' s'' \<Longrightarrow> unchanged s s''"
  unfolding unchanged_def by (meson prefix_order.trans)

lemma unchanged_bundleOf:
  assumes "unchanged s s'" and "liveBundle s r"
  shows "bundleOf s' r = bundleOf s r"
proof -
  have b: "bundleObjects s' ! r = bundleObjects s ! r"
    using assms by (intro prefix_nth) (simp_all add: unchanged_def liveBundle_def)
  have "stringArrays s' ! cardIDs_of (bundleObjects s ! r)
          = stringArrays s ! cardIDs_of (bundleObjects s ! r)"
    using assms by (intro prefix_nth) (simp_all add: unchanged_def liveBundle_def)
  moreover have "dateObjects s' ! createdAt_of (bundleObjects s ! r)
          = dateObjects s ! createdAt_of (bundleObjects s ! r)"
    using assms by (intro prefix_nth) (simp_all add: unchanged_def liveBundle_def)
  moreover have "dateObjects s' ! lastModified_of (bundleObjects s ! r)
          = dateObjects s ! lastModified_of (bundleObjects s ! r)"
    using assms by (intro prefix_nth) (simp_all add: unchanged_def liveBundle_def)
  ultimately show ?thesis by (simp add: bundleOf_def b)
qed

lemma unchanged_card:
  "unchanged s s' \<Longrightarrow> liveCard s c \<Longrightarrow> cardObjects s' ! c = cardObjects s ! c"
  by (intro prefix_nth) (simp_all add: unchanged_def liveCard_def)

lemma unchanged_cardsOf:
  assumes "unchanged s s'" and "liveCards s a"
  shows "cardsOf s' a = cardsOf s a"
proof -
  have a: "cardArrays s' ! a = cardArrays s ! a"
    using assms by (intro prefix_nth) (simp_all add: unchanged_def liveCards_def)
  have "cardObjects s' ! r = cardObjects s ! r" if "r \<in> set (cardArrays s ! a)" for r
    using assms that by (intro prefix_nth) (simp_all add: unchanged_def liveCards_def)
  then show ?thesis by (simp add: cardsOf_def a)
qed

text \<open>
  What is live stays live, so a second invocation, in the store that the first has left,
  is on live arguments too.
\<close>

lemma unchanged_liveCard: "unchanged s s' \<Longrightarrow> liveCard s c \<Longrightarrow> liveCard s' c"
  using prefix_length_le [of "cardObjects s" "cardObjects s'"]
  by (simp add: unchanged_def liveCard_def)

lemma unchanged_liveCards:
  assumes "unchanged s s'" and "liveCards s a"
  shows "liveCards s' a"
proof -
  have a: "cardArrays s' ! a = cardArrays s ! a"
    using assms by (intro prefix_nth) (simp_all add: unchanged_def liveCards_def)
  show ?thesis
    using assms prefix_length_le [of "cardObjects s" "cardObjects s'"]
      prefix_length_le [of "cardArrays s" "cardArrays s'"]
    by (auto simp: unchanged_def liveCards_def a)
qed

lemma unchanged_liveBundle:
  assumes "unchanged s s'" and "liveBundle s r"
  shows "liveBundle s' r"
proof -
  have b: "bundleObjects s' ! r = bundleObjects s ! r"
    using assms by (intro prefix_nth) (simp_all add: unchanged_def liveBundle_def)
  show ?thesis
    using assms prefix_length_le [of "bundleObjects s" "bundleObjects s'"]
      prefix_length_le [of "stringArrays s" "stringArrays s'"]
      prefix_length_le [of "dateObjects s" "dateObjects s'"]
    by (auto simp: unchanged_def liveBundle_def b)
qed

lemma getCardIdentifier_st_eq:
  "getCardIdentifier_st c s = (getCardIdentifier (cardObjects s ! c), s)"
  by (simp add: getCardIdentifier_st_def getCardIdentifier_def)

lemma calculateBundleTotal_st_eq:
  "calculateBundleTotal_st cards strategy m s
     = (calculateBundleTotal (cardsOf s cards) strategy m, s)"
  by (simp add: calculateBundleTotal_st_def calculateBundleTotal_def cardsOf_def foldl_map)

lemma filtered_cards:
  "map (\<lambda>r. cardObjects s ! r)
     (filter (\<lambda>c. card_id (cardObjects s ! c)
                    \<in> set (stringArrays s ! cardIDs_of (bundleObjects s ! b)))
        (cardArrays s ! a))
   = bundleCards (bundleOf s b) (cardsOf s a)"
  by (simp add: bundleCards_def bundleOf_def cardsOf_def filter_map comp_def)

lemma calculateBundleStatistics_st_eq:
  "calculateBundleStatistics_st b a s =
     (length (statisticsObjects s),
      s\<lparr>cardArrays := cardArrays s @
           [filter (\<lambda>c. card_id (cardObjects s ! c)
                          \<in> set (stringArrays s ! cardIDs_of (bundleObjects s ! b)))
              (cardArrays s ! a)],
        statisticsObjects := statisticsObjects s @
           [calculateBundleStatistics (bundleOf s b) (cardsOf s a)]\<rparr>)"
proof -
  have "foldl (\<lambda>totals c. statisticsStep totals (cardObjects s ! c)) z rs
          = foldl statisticsStep z (map (\<lambda>r. cardObjects s ! r) rs)" for z rs
    by (simp add: foldl_map)
  then show ?thesis
    by (simp add: calculateBundleStatistics_st_def filterCards_def newCardArray_def
        newStatistics_def calculateBundleStatistics_def filtered_cards
        split: prod.splits)
      (simp add: bundleCards_def bundleOf_def)
qed

lemma unchanged_alloc:
  "unchanged s
     (s\<lparr>cardArrays := cardArrays s @ a, bundleObjects := bundleObjects s @ b,
        stringArrays := stringArrays s @ c, dateObjects := dateObjects s @ d,
        statisticsObjects := statisticsObjects s @ e,
        validationObjects := validationObjects s @ f, rowObjects := rowObjects s @ g,
        rowArrays := rowArrays s @ h, numberArrays := numberArrays s @ i\<rparr>)"
  by (simp add: unchanged_def)

lemma mapRows_alloc:
  assumes "\<And>p s'. f p s' = (length (rowObjects s'),
                            s'\<lparr>rowObjects := rowObjects s' @ [g p (cardObjects s' ! c)]\<rparr>)"
  shows "mapRows f ps s
     = ([length (rowObjects s) ..< length (rowObjects s) + length ps],
        s\<lparr>rowObjects := rowObjects s @ map (\<lambda>p. g p (cardObjects s ! c)) ps\<rparr>)"
proof (induction ps arbitrary: s)
  case Nil
  show ?case by simp
next
  case (Cons p ps)
  have u: "n # [Suc n ..< Suc (n + k)] = [n ..< Suc (n + k)]" for n k :: nat
    by (simp add: upt_conv_Cons del: upt_Suc)
  show ?case
    unfolding mapRows.simps assms [of p s] Let_def prod.case Cons.IH
    by (simp add: u del: upt_Suc)
qed

lemma generatePriceTable_st_eq:
  "generatePriceTable_st c s =
     (length (rowArrays s),
      s\<lparr>numberArrays := numberArrays s @ [map Fin [100, 90, 80, 70, 60, 50, 40, 30, 20, 10]],
        rowObjects := rowObjects s @ generatePriceTable (cardObjects s ! c),
        rowArrays := rowArrays s @ [[length (rowObjects s) ..< length (rowObjects s) + 10]]\<rparr>)"
proof -
  define P where "P = map Fin [100, 90, 80, 70, 60, 50, 40, 30, 20, 10]"
  define g where "g = (\<lambda>p (c :: 'a TCGCard_scheme). \<lparr>percentage = p,
        trendingValue = js_mul (nullish (trendingPrice c) (Fin 0)) (js_div p (Fin 100)),
        averageValue = js_mul (nullish (averagePrice c) (Fin 0)) (js_div p (Fin 100)),
        lowValue = js_mul (nullish (lowPrice c) (Fin 0)) (js_div p (Fin 100))\<rparr>)"
  define f where "f = (\<lambda>p (s' :: ('a, 'b) store). newRow (g p (cardObjects s' ! c)) s')"
  define s1 where "s1 = s\<lparr>numberArrays := numberArrays s @ [P]\<rparr>"
  have l: "length P = 10" by (simp add: P_def)
  have t: "generatePriceTable (cardObjects s ! c) = map (\<lambda>p. g p (cardObjects s ! c)) P"
    by (simp only: generatePriceTable_def Let_def g_def P_def)
  have d: "generatePriceTable_st c s =
     (let (percentages, s1) = newNumberArray P s;
          (rowRefs, s2) = mapRows f (numberArrays s1 ! percentages) s1
      in newRowArray rowRefs s2)"
    by (simp only: generatePriceTable_st_def Let_def g_def P_def f_def)
  have n: "newNumberArray P s = (length (numberArrays s), s1)"
    by (simp add: newNumberArray_def s1_def)
  have p: "numberArrays s1 ! length (numberArrays s) = P"
    by (simp add: s1_def)
  have m: "mapRows f P s1
     = ([length (rowObjects s) ..< length (rowObjects s) + 10],
        s1\<lparr>rowObjects := rowObjects s @ map (\<lambda>p. g p (cardObjects s ! c)) P\<rparr>)"
  proof -
    have fa: "f p s' = (length (rowObjects s'),
                        s'\<lparr>rowObjects := rowObjects s' @ [g p (cardObjects s' ! c)]\<rparr>)" for p s'
      by (simp add: f_def newRow_def)
    have r: "rowObjects s1 = rowObjects s" "cardObjects s1 = cardObjects s"
      by (simp_all add: s1_def)
    show ?thesis
      unfolding mapRows_alloc [of f g c, OF fa] l r ..
  qed
  show ?thesis
    unfolding d n Let_def prod.case p m newRowArray_def t
    by (simp add: s1_def P_def)
qed

lemma length_generatePriceTable: "length (generatePriceTable c) = 10"
  by (simp add: generatePriceTable_def)

lemma nth_upt_append:
  "map ((!) (xs @ ys)) [length xs ..< length xs + length ys] = ys"
  by (rule nth_equalityI) (simp_all add: nth_append)

lemma generatePriceTable_st_pure:
  "case generatePriceTable_st c s of
     (r, s') \<Rightarrow> rowsOf s' r = generatePriceTable (cardObjects s ! c)
              \<and> r = length (rowArrays s) \<and> unchanged s s'
              \<and> cardObjects s' ! c = cardObjects s ! c"
proof -
  have m: "map ((!) (rowObjects s @ generatePriceTable (cardObjects s ! c)))
             [length (rowObjects s) ..< length (rowObjects s) + 10]
           = generatePriceTable (cardObjects s ! c)"
    using nth_upt_append [of "rowObjects s" "generatePriceTable (cardObjects s ! c)"]
    unfolding length_generatePriceTable .
  show ?thesis
    unfolding generatePriceTable_st_eq prod.case rowsOf_def unchanged_def
    by (simp add: m del: upt_Suc)
qed

lemma calculateBundleStatistics_st_pure:
  assumes "liveCards s cards" and "liveBundle s bundle"
  shows "case calculateBundleStatistics_st bundle cards s of
     (r, s') \<Rightarrow> statisticsObjects s' ! r
                  = calculateBundleStatistics (bundleOf s bundle) (cardsOf s cards)
              \<and> r = length (statisticsObjects s) \<and> unchanged s s'
              \<and> bundleOf s' bundle = bundleOf s bundle \<and> cardsOf s' cards = cardsOf s cards"
proof -
  obtain r s' where e: "calculateBundleStatistics_st bundle cards s = (r, s')"
    by (cases "calculateBundleStatistics_st bundle cards s")
  have u: "unchanged s s'"
    using e by (auto simp: calculateBundleStatistics_st_eq unchanged_def)
  show ?thesis
    using e unchanged_bundleOf [OF u assms(2)] unchanged_cardsOf [OF u assms(1)] u
    by (auto simp: calculateBundleStatistics_st_eq)
qed

lemma validateBundle_st_eq:
  assumes "liveBundle s b"
  shows "validateBundle_st b s =
     (length (validationObjects s),
      s\<lparr>stringArrays := stringArrays s @ [errors (validateBundle (bundleOf s b))],
        validationObjects := validationObjects s @
          [\<lparr>isValid_of = isValid (validateBundle (bundleOf s b)),
            errors_of = length (stringArrays s)\<rparr>]\<rparr>)"
proof -
  have l: "cardIDs_of (bundleObjects s ! b) < length (stringArrays s)"
    using assms by (simp add: liveBundle_def)
  show ?thesis
    using l
    by (simp add: validateBundle_st_def validateBundle_def newStringArray_def pushString_def
        newValidation_def bundleOf_def Let_def nth_append)
qed

lemma validateBundle_st_pure:
  assumes "liveBundle s bundle"
  shows "case validateBundle_st bundle s of
     (r, s') \<Rightarrow> validationOf s' r = validateBundle (bundleOf s bundle)
              \<and> r = length (validationObjects s) \<and> unchanged s s'
              \<and> bundleOf s' bundle = bundleOf s bundle"
proof -
  obtain r s' where e: "validateBundle_st bundle s = (r, s')"
    by (cases "validateBundle_st bundle s")
  have u: "unchanged s s'"
    using e by (auto simp: validateBundle_st_eq [OF assms] unchanged_def)
  show ?thesis
    using e unchanged_bundleOf [OF u assms] u
    by (auto simp: validateBundle_st_eq [OF assms] validationOf_def)
qed

lemma updateBundleTotal_st_eq:
  "updateBundleTotal_st now b cs s =
     (case calculateBundleTotal (bundleCards (bundleOf s b) (cardsOf s cs))
             (pricingStrategy_of (bundleObjects s ! b))
             (percentageMultiplier_of (bundleObjects s ! b)) of
        Inl e \<Rightarrow>
          (Inl e,
           s\<lparr>cardArrays := cardArrays s @
                [filter (\<lambda>c. card_id (cardObjects s ! c)
                               \<in> set (stringArrays s ! cardIDs_of (bundleObjects s ! b)))
                   (cardArrays s ! cs)]\<rparr>)
      | Inr newTotal \<Rightarrow>
          (Inr (length (bundleObjects s)),
           s\<lparr>cardArrays := cardArrays s @
                [filter (\<lambda>c. card_id (cardObjects s ! c)
                               \<in> set (stringArrays s ! cardIDs_of (bundleObjects s ! b)))
                   (cardArrays s ! cs)],
             dateObjects := dateObjects s @ [now],
             bundleObjects := bundleObjects s @
                [(bundleObjects s ! b)
                   \<lparr>calculatedTotal_of := newTotal,
                    lastModified_of := length (dateObjects s)\<rparr>]\<rparr>))"
  by (simp add: updateBundleTotal_st_def filterCards_def newCardArray_def
      calculateBundleTotal_st_eq cardsOf_def filtered_cards [unfolded cardsOf_def]
      newDate_def newBundle_def split: sum.splits)

lemma updateBundleTotal_st_new:
  assumes "liveBundle s bundle"
  shows "case updateBundleTotal_st now bundle cards s of
     (Inl e, s') \<Rightarrow>
        updateBundleTotal now (bundleOf s bundle) (cardsOf s cards) = Inl e \<and> unchanged s s'
   | (Inr r, s') \<Rightarrow>
        updateBundleTotal now (bundleOf s bundle) (cardsOf s cards) = Inr (bundleOf s' r)
      \<and> r = length (bundleObjects s) \<and> unchanged s s'"
proof -
  have l: "bundle < length (bundleObjects s)"
    "cardIDs_of (bundleObjects s ! bundle) < length (stringArrays s)"
    "createdAt_of (bundleObjects s ! bundle) < length (dateObjects s)"
    using assms by (simp_all add: liveBundle_def)
  have f: "pricingStrategy_of (bundleObjects s ! bundle) = pricingStrategy (bundleOf s bundle)"
    "percentageMultiplier_of (bundleObjects s ! bundle)
       = percentageMultiplier (bundleOf s bundle)"
    by (simp_all add: bundleOf_def)
  show ?thesis
    unfolding updateBundleTotal_st_eq updateBundleTotal_eq f
    using l
    by (simp add: unchanged_def bundleOf_def nth_append split: sum.splits)
qed

lemma updateBundleTotal_st_pure:
  assumes "liveCards s cards" and "liveBundle s bundle"
  shows "case updateBundleTotal_st now bundle cards s of
     (Inl e, s') \<Rightarrow>
        updateBundleTotal now (bundleOf s bundle) (cardsOf s cards) = Inl e
      \<and> unchanged s s'
      \<and> bundleOf s' bundle = bundleOf s bundle \<and> cardsOf s' cards = cardsOf s cards
   | (Inr r, s') \<Rightarrow>
        updateBundleTotal now (bundleOf s bundle) (cardsOf s cards) = Inr (bundleOf s' r)
      \<and> r = length (bundleObjects s) \<and> unchanged s s'
      \<and> bundleOf s' bundle = bundleOf s bundle \<and> cardsOf s' cards = cardsOf s cards"
proof -
  obtain x s' where e: "updateBundleTotal_st now bundle cards s = (x, s')"
    by (cases "updateBundleTotal_st now bundle cards s")
  have u: "unchanged s s'"
    using e updateBundleTotal_st_new [OF assms(2), of now cards]
    by (auto split: sum.splits)
  show ?thesis
    using e updateBundleTotal_st_new [OF assms(2), of now cards]
      unchanged_bundleOf [OF u assms(2)] unchanged_cardsOf [OF u assms(1)]
    by (auto split: sum.splits)
qed

section \<open>Updating the total of a bundle\<close>

lemma total_a_c:
  "calculateBundleTotal [pricedCard ''a'' 1, pricedCard ''c'' 5] Trending (Fin 1) = Inr (Fin 6)"
  by (simp add: calculateBundleTotal_inRange inRange_1 js_sum_def tierOrZero_pricedCard
      round64_1 round64_5 round64_6)

lemma total_a5:
  "calculateBundleTotal [pricedCard ''a'' 5] Trending (Fin 1) = Inr (Fin 5)"
  by (simp add: calculateBundleTotal_inRange inRange_1 js_sum_def tierOrZero_pricedCard round64_5)

lemma card_id_pricedCard: "card_id (pricedCard i p) = str i"
  by (simp add: pricedCard_def mkCard_def)

lemma exampleStore_live:
  "liveCard exampleStore 0" "liveCards exampleStore 0" "liveBundle exampleStore 0"
  by (simp_all add: exampleStore_def liveCard_def liveCards_def liveBundle_def)

lemma exampleStore_contents:
  "bundleOf exampleStore 0 = mkBundle (str ''Deal'') [str ''a'', str ''c''] Trending (Fin 1)"
  "cardsOf exampleStore 0 = [pricedCard ''a'' 1, pricedCard ''b'' 2, pricedCard ''c'' 5]"
  by (simp_all add: exampleStore_def bundleOf_def cardsOf_def mkBundle_def)

lemma updateBundleTotal_example:
  "updateBundleTotal t (mkBundle (str ''Deal'') [str ''a'', str ''c''] Trending (Fin 1))
       [pricedCard ''a'' 1, pricedCard ''b'' 2, pricedCard ''c'' 5]
     = Inr ((mkBundle (str ''Deal'') [str ''a'', str ''c''] Trending (Fin 1))
             \<lparr>calculatedTotal := Fin 6, lastModified := t\<rparr>)"
proof -
  let ?b = "mkBundle (str ''Deal'') [str ''a'', str ''c''] Trending (Fin 1)"
  let ?cs = "[pricedCard ''a'' 1, pricedCard ''b'' 2, pricedCard ''c'' 5]"
  have bc: "bundleCards ?b ?cs = [pricedCard ''a'' 1, pricedCard ''c'' 5]"
    by (simp add: bundleCards_def mkBundle_def card_id_pricedCard str_inj)
  have f: "pricingStrategy ?b = Trending" "percentageMultiplier ?b = Fin 1"
    by (simp_all add: mkBundle_def)
  show ?thesis by (simp add: updateBundleTotal_eq bc f total_a_c)
qed

text \<open>
  Claim C5. For every bundle whose \<^verbatim>\<open>percentageMultiplier\<close> is in the range \<open>[0.1, 1.0]\<close>
  and every list of cards, \<open>updateBundleTotal\<close> returns a bundle whose \<^verbatim>\<open>calculatedTotal\<close>
  is \<open>calculateBundleTotal\<close> of the cards whose \<^verbatim>\<open>id\<close> is in \<^verbatim>\<open>cardIDs\<close>, with the strategy
  and the multiplier of the bundle, whose \<^verbatim>\<open>lastModified\<close> is the reading of the clock,
  and whose other fields are those of the bundle. The bundle passed in is not changed: on
  every store where a reference holds the bundle, \<open>updateBundleTotal_st\<close> returns a
  reference that was not in the store, to an object with these contents; every object of
  the store is as it was, and the reference passed in holds the bundle as before.
\<close>

theorem updateBundleTotal_frame:
  assumes "inRange (percentageMultiplier bundle)"
  shows "\<exists>bundle'.
           updateBundleTotal now bundle cards = Inr bundle'
         \<and> calculateBundleTotal (bundleCards bundle cards) (pricingStrategy bundle)
               (percentageMultiplier bundle) = Inr (calculatedTotal bundle')
         \<and> lastModified bundle' = now
         \<and> bundle_id bundle' = bundle_id bundle
         \<and> name bundle' = name bundle
         \<and> cardIDs bundle' = cardIDs bundle
         \<and> pricingStrategy bundle' = pricingStrategy bundle
         \<and> percentageMultiplier bundle' = percentageMultiplier bundle
         \<and> notes_opt bundle' = notes_opt bundle
         \<and> createdAt bundle' = createdAt bundle
         \<and> bundle' = bundle\<lparr>calculatedTotal := calculatedTotal bundle', lastModified := now\<rparr>
         \<and> (\<forall>s b cs. liveBundle s b \<and> bundleOf s b = bundle \<and> cardsOf s cs = cards \<longrightarrow>
               (\<exists>s'. updateBundleTotal_st now b cs s = (Inr (length (bundleObjects s)), s')
                    \<and> bundleOf s' (length (bundleObjects s)) = bundle'
                    \<and> unchanged s s'
                    \<and> bundleOf s' b = bundle))"
proof -
  obtain t where t: "calculateBundleTotal (bundleCards bundle cards) (pricingStrategy bundle)
               (percentageMultiplier bundle) = Inr t"
    using assms by (simp add: calculateBundleTotal_inRange)
  let ?b' = "bundle\<lparr>calculatedTotal := t, lastModified := now\<rparr>"
  have u: "updateBundleTotal now bundle cards = Inr ?b'"
    by (simp add: updateBundleTotal_eq t)
  have st: "\<exists>s'. updateBundleTotal_st now b cs s = (Inr (length (bundleObjects s)), s')
                    \<and> bundleOf s' (length (bundleObjects s)) = ?b'
                    \<and> unchanged s s'
                    \<and> bundleOf s' b = bundle"
    if l: "liveBundle s b" and b: "bundleOf s b = bundle" and c: "cardsOf s cs = cards"
    for s b cs
  proof -
    obtain x s' where e: "updateBundleTotal_st now b cs s = (x, s')"
      by (cases "updateBundleTotal_st now b cs s")
    have "x = Inr (length (bundleObjects s)) \<and> bundleOf s' (length (bundleObjects s)) = ?b'
          \<and> unchanged s s'"
      using updateBundleTotal_st_new [OF l, of now cs] u
      unfolding e b c by (cases x) auto
    then show ?thesis
      using e unchanged_bundleOf [of s s' b] l b by auto
  qed
  show ?thesis
    using u t st by (intro exI [of _ ?b']) simp
qed

theorem updateBundleTotal_frame_witness:
  "inRange (percentageMultiplier (mkBundle (str ''Deal'') [str ''a'', str ''c''] Trending (Fin 1)))
   \<and> updateBundleTotal 1700000000001
         (mkBundle (str ''Deal'') [str ''a'', str ''c''] Trending (Fin 1))
         [pricedCard ''a'' 1, pricedCard ''b'' 2, pricedCard ''c'' 5]
       = Inr ((mkBundle (str ''Deal'') [str ''a'', str ''c''] Trending (Fin 1))
               \<lparr>calculatedTotal := Fin 6, lastModified := 1700000000001\<rparr>)
   \<and> liveBundle exampleStore 0
   \<and> bundleOf exampleStore 0 = mkBundle (str ''Deal'') [str ''a'', str ''c''] Trending (Fin 1)
   \<and> cardsOf exampleStore 0 = [pricedCard ''a'' 1, pricedCard ''b'' 2, pricedCard ''c'' 5]
   \<and> (\<exists>s'. updateBundleTotal_st 1700000000001 0 0 exampleStore = (Inr 1, s')
          \<and> bundleOf s' 1
              = (mkBundle (str ''Deal'') [str ''a'', str ''c''] Trending (Fin 1))
                  \<lparr>calculatedTotal := Fin 6, lastModified := 1700000000001\<rparr>
          \<and> unchanged exampleStore s'
          \<and> bundleOf s' 0 = mkBundle (str ''Deal'') [str ''a'', str ''c''] Trending (Fin 1))"
proof -
  let ?b = "mkBundle (str ''Deal'') [str ''a'', str ''c''] Trending (Fin 1)"
  let ?cs = "[pricedCard ''a'' 1, pricedCard ''b'' 2, pricedCard ''c'' 5]"
  have h: "inRange (percentageMultiplier ?b)" by (simp add: mkBundle_def inRange_1)
  have bc: "bundleCards ?b ?cs = [pricedCard ''a'' 1, pricedCard ''c'' 5]"
    by (simp add: bundleCards_def mkBundle_def card_id_pricedCard str_inj)
  have f: "pricingStrategy ?b = Trending" "percentageMultiplier ?b = Fin 1"
    by (simp_all add: mkBundle_def)
  have n: "length (bundleObjects exampleStore) = 1"
    by (simp add: exampleStore_def)
  have g: "liveBundle exampleStore 0 \<and> bundleOf exampleStore 0 = ?b
           \<and> cardsOf exampleStore 0 = ?cs"
    by (simp add: exampleStore_live exampleStore_contents)
  from updateBundleTotal_frame [OF h, of 1700000000001 ?cs]
  obtain b' where u: "updateBundleTotal 1700000000001 ?b ?cs = Inr b'"
    and c: "calculateBundleTotal (bundleCards ?b ?cs) (pricingStrategy ?b) (percentageMultiplier ?b)
           = Inr (calculatedTotal b')"
    and e: "b' = ?b\<lparr>calculatedTotal := calculatedTotal b', lastModified := 1700000000001\<rparr>"
    and st: "\<forall>s b cs. liveBundle s b \<and> bundleOf s b = ?b \<and> cardsOf s cs = ?cs \<longrightarrow>
               (\<exists>s'. updateBundleTotal_st 1700000000001 b cs s
                        = (Inr (length (bundleObjects s)), s')
                    \<and> bundleOf s' (length (bundleObjects s)) = b'
                    \<and> unchanged s s'
                    \<and> bundleOf s' b = ?b)"
    by blast
  have t: "calculatedTotal b' = Fin 6" using c by (simp add: bc f total_a_c)
  have b': "b' = ?b\<lparr>calculatedTotal := Fin 6, lastModified := 1700000000001\<rparr>"
    using e t by simp
  from st g have "\<exists>s'. updateBundleTotal_st 1700000000001 0 0 exampleStore
                        = (Inr (length (bundleObjects exampleStore)), s')
                    \<and> bundleOf s' (length (bundleObjects exampleStore)) = b'
                    \<and> unchanged exampleStore s'
                    \<and> bundleOf s' 0 = ?b"
    by blast
  then show ?thesis unfolding n using h u g by (simp add: b')
qed

section \<open>Validating a bundle\<close>

text \<open>
  \<open>validateBundle\<close> has no failing branch. It checks, in this order and each on its own,
  that the trimmed name is not empty, that \<^verbatim>\<open>cardIDs\<close> is not empty, and that the multiplier
  is neither below \<^verbatim>\<open>0.1\<close> nor above \<^verbatim>\<open>1.0\<close>; the bundle is valid when no message is
  returned. Every multiplier out of the range has the third message, but NaN. A bundle with an empty name, no card and the multiplier 1.5 has the three
  messages.
\<close>

lemma validateBundle_errors:
  "errors (validateBundle bundle) =
     (if trim (name bundle) = [] then [str ''Bundle name is required''] else [])
     @ (if cardIDs bundle = [] then [str ''Bundle must contain at least one card''] else [])
     @ (if percentageMultiplier bundle \<noteq> NaN \<and> \<not> inRange (percentageMultiplier bundle)
        then [str ''Percentage must be between 10% and 100%''] else [])
   \<and> isValid (validateBundle bundle) = (errors (validateBundle bundle) = [])"
  by (simp add: validateBundle_def guard_iff Let_def)

lemma validateBundle_three_messages:
  "errors (validateBundle (mkBundle [] [] Average (Fin (3 / 2))))
     = [str ''Bundle name is required'', str ''Bundle must contain at least one card'',
        str ''Percentage must be between 10% and 100%'']
   \<and> length (errors (validateBundle (mkBundle [] [] Average (Fin (3 / 2))))) = 3
   \<and> \<not> isValid (validateBundle (mkBundle [] [] Average (Fin (3 / 2))))"
  by (simp add: validateBundle_errors mkBundle_def inRange_def js_gt_def)
    (simp add: trim_def)

text \<open>
  Claim C6 fails for one multiplier. NaN is not in the range \<open>[0.1, 1.0]\<close>, and both
  comparisons of the third check are false for it: \<open>validateBundle\<close> returns no message for
  a bundle whose multiplier is NaN, and reports it valid.
\<close>

theorem validateBundle_NaN_accepted:
  "\<not> inRange NaN
   \<and> validateBundle (mkBundle (str ''Deal'') [str ''card-1''] Average NaN)
       = \<lparr>isValid = True, errors = []\<rparr>"
proof -
  have "trim (str ''Deal'') \<noteq> []" by (simp add: trim_def str_def isWhiteSpace_def)
  then show ?thesis
    by (simp add: validateBundle_def mkBundle_def inRange_def js_gt_def)
qed

section \<open>Identifiers that occur twice\<close>




section \<open>The clock and the store\<close>

text \<open>
  Claim C8, as amended. On every store where the arguments are live, each operation
  returns what its function on values returns on the contents of its arguments: the
  result depends on nothing else in the store, so two invocations with equal arguments
  return equal results. The exception is \<open>updateBundleTotal\<close>, whose function on values
  takes the reading of the clock: two invocations with equal arguments fail alike, or
  return bundles that are equal in every field but \<^verbatim>\<open>lastModified\<close>, which is the
  reading of the clock of each invocation. No operation changes an object of the store:
  \<open>getCardIdentifier\<close> and \<open>calculateBundleTotal\<close> return the store itself; after each of
  the four others every object of the store is as it was, the reference returned is new,
  and the input cards and bundle hold what they held. What is live stays live
  (\<open>unchanged_liveCards\<close>, \<open>unchanged_liveBundle\<close>), so this holds again of a second
  invocation, in the store that the first has left.
\<close>

theorem operations_pure_but_clock:
  assumes "liveCard s c" and "liveCards s cards" and "liveBundle s bundle"
  shows
    "getCardIdentifier_st c s = (getCardIdentifier (cardObjects s ! c), s)
   \<and> calculateBundleTotal_st cards strategy multiplier s
       = (calculateBundleTotal (cardsOf s cards) strategy multiplier, s)
   \<and> (case generatePriceTable_st c s of
         (r, s') \<Rightarrow> rowsOf s' r = generatePriceTable (cardObjects s ! c)
                  \<and> r = length (rowArrays s) \<and> unchanged s s'
                  \<and> cardObjects s' ! c = cardObjects s ! c)
   \<and> (case calculateBundleStatistics_st bundle cards s of
         (r, s') \<Rightarrow> statisticsObjects s' ! r
                      = calculateBundleStatistics (bundleOf s bundle) (cardsOf s cards)
                  \<and> r = length (statisticsObjects s) \<and> unchanged s s'
                  \<and> bundleOf s' bundle = bundleOf s bundle
                  \<and> cardsOf s' cards = cardsOf s cards)
   \<and> (case validateBundle_st bundle s of
         (r, s') \<Rightarrow> validationOf s' r = validateBundle (bundleOf s bundle)
                  \<and> r = length (validationObjects s) \<and> unchanged s s'
                  \<and> bundleOf s' bundle = bundleOf s bundle)
   \<and> (case updateBundleTotal_st now bundle cards s of
         (Inl e, s') \<Rightarrow>
            updateBundleTotal now (bundleOf s bundle) (cardsOf s cards) = Inl e
          \<and> unchanged s s'
          \<and> bundleOf s' bundle = bundleOf s bundle \<and> cardsOf s' cards = cardsOf s cards
       | (Inr r, s') \<Rightarrow>
            updateBundleTotal now (bundleOf s bundle) (cardsOf s cards) = Inr (bundleOf s' r)
          \<and> r = length (bundleObjects s) \<and> unchanged s s'
          \<and> bundleOf s' bundle = bundleOf s bundle \<and> cardsOf s' cards = cardsOf s cards)
   \<and> map_sum id (\<lambda>b. b\<lparr>lastModified := t\<rparr>) (updateBundleTotal now b cs)
       = map_sum id (\<lambda>b. b\<lparr>lastModified := t\<rparr>) (updateBundleTotal now' b cs)
   \<and> (case updateBundleTotal now b cs of
         Inl e \<Rightarrow> True
       | Inr b' \<Rightarrow> lastModified b' = now)"
proof -
  have "map_sum id (\<lambda>b. b\<lparr>lastModified := t\<rparr>) (updateBundleTotal now b cs)
       = map_sum id (\<lambda>b. b\<lparr>lastModified := t\<rparr>) (updateBundleTotal now' b cs)
   \<and> (case updateBundleTotal now b cs of
         Inl e \<Rightarrow> True
       | Inr b' \<Rightarrow> lastModified b' = now)"
    by (simp add: updateBundleTotal_eq split: sum.splits)
  then show ?thesis
    using getCardIdentifier_st_eq [where c = c and s = s]
      calculateBundleTotal_st_eq [where cards = cards and strategy = strategy
        and m = multiplier and s = s]
      generatePriceTable_st_pure [where c = c and s = s]
      calculateBundleStatistics_st_pure [OF assms(2,3)]
      validateBundle_st_pure [OF assms(3)]
      updateBundleTotal_st_pure [OF assms(2,3), where now = now]
    by blast
qed

theorem operations_pure_but_clock_witness:
  "liveCard exampleStore 0 \<and> liveCards exampleStore 0 \<and> liveBundle exampleStore 0
   \<and> (\<exists>s'. updateBundleTotal_st 1700000000001 0 0 exampleStore = (Inr 1, s')
          \<and> bundleOf s' 1
              = (mkBundle (str ''Deal'') [str ''a'', str ''c''] Trending (Fin 1))
                  \<lparr>calculatedTotal := Fin 6, lastModified := 1700000000001\<rparr>
          \<and> bundleOf s' 0 = mkBundle (str ''Deal'') [str ''a'', str ''c''] Trending (Fin 1)
          \<and> cardsOf s' 0 = [pricedCard ''a'' 1, pricedCard ''b'' 2, pricedCard ''c'' 5])"
proof -
  obtain x s' where e: "updateBundleTotal_st 1700000000001 0 0 exampleStore = (x, s')"
    by (cases "updateBundleTotal_st 1700000000001 0 0 exampleStore")
  have n: "length (bundleObjects exampleStore) = 1"
    by (simp add: exampleStore_def)
  from operations_pure_but_clock [where now = 1700000000001, OF exampleStore_live,
      THEN conjunct2, THEN conjunct2, THEN conjunct2, THEN conjunct2, THEN conjunct2,
      THEN conjunct1]
  have "case updateBundleTotal_st 1700000000001 0 0 exampleStore of
         (Inl e, s') \<Rightarrow>
            updateBundleTotal 1700000000001 (bundleOf exampleStore 0) (cardsOf exampleStore 0)
              = Inl e
          \<and> unchanged exampleStore s'
          \<and> bundleOf s' 0 = bundleOf exampleStore 0 \<and> cardsOf s' 0 = cardsOf exampleStore 0
       | (Inr r, s') \<Rightarrow>
            updateBundleTotal 1700000000001 (bundleOf exampleStore 0) (cardsOf exampleStore 0)
              = Inr (bundleOf s' r)
          \<and> r = length (bundleObjects exampleStore) \<and> unchanged exampleStore s'
          \<and> bundleOf s' 0 = bundleOf exampleStore 0 \<and> cardsOf s' 0 = cardsOf exampleStore 0" .
  then have "x = Inr 1
      \<and> bundleOf s' 1
          = (mkBundle (str ''Deal'') [str ''a'', str ''c''] Trending (Fin 1))
              \<lparr>calculatedTotal := Fin 6, lastModified := 1700000000001\<rparr>
      \<and> bundleOf s' 0 = mkBundle (str ''Deal'') [str ''a'', str ''c''] Trending (Fin 1)
      \<and> cardsOf s' 0 = [pricedCard ''a'' 1, pricedCard ''b'' 2, pricedCard ''c'' 5]"
    unfolding e exampleStore_contents updateBundleTotal_example n
    by (cases x) auto
  then show ?thesis using e exampleStore_live by blast
qed

theorem updateBundleTotal_clock_counterexample:
  "updateBundleTotal 1700000000001
       (mkBundle (str ''Deal'') [str ''a''] Trending (Fin 1)) [pricedCard ''a'' 5]
     \<noteq> updateBundleTotal 1700000000002
       (mkBundle (str ''Deal'') [str ''a''] Trending (Fin 1)) [pricedCard ''a'' 5]"
proof -
  let ?b1 = "mkBundle (str ''Deal'') [str ''a''] Trending (Fin 1)"
  have bc: "bundleCards ?b1 [pricedCard ''a'' 5] = [pricedCard ''a'' 5]"
    by (simp add: bundleCards_def mkBundle_def card_id_pricedCard)
  have f: "pricingStrategy ?b1 = Trending" "percentageMultiplier ?b1 = Fin 1"
    by (simp_all add: mkBundle_def)
  have "updateBundleTotal t ?b1 [pricedCard ''a'' 5]
     = Inr (?b1\<lparr>calculatedTotal := Fin 5, lastModified := t\<rparr>)" for t
    by (simp add: updateBundleTotal_eq bc f total_a5)
  then show ?thesis by (simp add: mkBundle_def)
qed

end
